theory Spec2Isabelle
  imports Main "HOL-Library.Sublist"
begin

section \<open>JavaScript values\<close>

text \<open>
  The data-access layer of the timetable dashboard lives in three scripts:
  \<^verbatim>\<open>apiClient.js\<close> (class \<^verbatim>\<open>APIClient\<close>, the remote gateway),
  \<^verbatim>\<open>storage.js\<close> (class \<^verbatim>\<open>StorageManager\<close>, which decides between the API
  and \<^verbatim>\<open>localStorage\<close>) and \<^verbatim>\<open>storage_api.js\<close> (class
  \<^verbatim>\<open>APIStorageAdapter\<close>, which keeps an in-memory cache in front of the API).

  All three handle untyped JavaScript values. A value is \<^verbatim>\<open>undefined\<close>, \<^verbatim>\<open>null\<close>,
  a boolean, a number, a string, an array or an object. Numbers are restricted to integers
  (identifiers come from \<^verbatim>\<open>Date.now()\<close> or from the server); an object is the list of
  its own properties in insertion order.
\<close>

datatype jsval =
    JUndefined
  | JNull
  | JBool bool
  | JNum int
  | JStr string
  | JArr "jsval list"
  | JObj "(string \<times> jsval) list"

text \<open>
  An exception is an \<^verbatim>\<open>Error\<close> object; the model keeps its class and its message.
\<close>

datatype error = Error string | TypeError string | SyntaxError string

fun message :: "error \<Rightarrow> string" where
  "message (Error m) = m"
| "message (TypeError m) = m"
| "message (SyntaxError m) = m"

text \<open>Sequencing of computations that may throw: the first exception wins.\<close>

definition ebind :: "error + 'a \<Rightarrow> ('a \<Rightarrow> error + 'b) \<Rightarrow> error + 'b" where
  "ebind m f = (case m of Inl e \<Rightarrow> Inl e | Inr v \<Rightarrow> f v)"

text \<open>Truthiness, as tested by \<^verbatim>\<open>if (x)\<close>, \<^verbatim>\<open>!x\<close>, \<^verbatim>\<open>x || y\<close> and \<^verbatim>\<open>x ? a : b\<close>.\<close>

fun truthy :: "jsval \<Rightarrow> bool" where
  "truthy JUndefined = False"
| "truthy JNull = False"
| "truthy (JBool b) = b"
| "truthy (JNum n) = (n \<noteq> 0)"
| "truthy (JStr s) = (s \<noteq> [])"
| "truthy (JArr _) = True"
| "truthy (JObj _) = True"

text \<open>
  Strict equality \<^verbatim>\<open>===\<close>. Arrays and objects are compared by reference; every place
  where the scripts compare values has a freshly parsed or freshly received value on one
  side, so two arrays or two objects are never the same reference there.
\<close>

fun strict_eq :: "jsval \<Rightarrow> jsval \<Rightarrow> bool" where
  "strict_eq JUndefined JUndefined = True"
| "strict_eq JNull JNull = True"
| "strict_eq (JBool a) (JBool b) = (a = b)"
| "strict_eq (JNum a) (JNum b) = (a = b)"
| "strict_eq (JStr a) (JStr b) = (a = b)"
| "strict_eq _ _ = False"

text \<open>
  Property read \<^verbatim>\<open>v.k\<close> for the data properties the scripts read (\<^verbatim>\<open>id\<close>,
  \<^verbatim>\<open>success\<close>, \<^verbatim>\<open>data\<close>, \<^verbatim>\<open>error\<close>, \<^verbatim>\<open>status\<close>, ...): a TypeError on
  \<^verbatim>\<open>undefined\<close> and \<^verbatim>\<open>null\<close>, the property's value on an object that has it, and
  \<^verbatim>\<open>undefined\<close> everywhere else.
\<close>

fun get_prop :: "jsval \<Rightarrow> string \<Rightarrow> error + jsval" where
  "get_prop JUndefined k = Inl (TypeError (''Cannot read properties of undefined (reading '' @ k @ '')''))"
| "get_prop JNull k = Inl (TypeError (''Cannot read properties of null (reading '' @ k @ '')''))"
| "get_prop (JObj kvs) k = Inr (case map_of kvs k of None \<Rightarrow> JUndefined | Some v \<Rightarrow> v)"
| "get_prop _ k = Inr JUndefined"

text \<open>Decimal notation of numbers, as produced by string conversion.\<close>

definition digit :: "nat \<Rightarrow> char" where
  "digit d = ''0123456789'' ! d"

fun decimal :: "nat \<Rightarrow> string" where
  "decimal n = (if 10 \<le> n then decimal (n div 10) @ [digit (n mod 10)] else [digit n])"

definition number_to_string :: "int \<Rightarrow> string" where
  "number_to_string i = (if 0 \<le> i then decimal (nat i) else CHR ''-'' # decimal (nat (- i)))"

text \<open>
  \<^verbatim>\<open>String(v)\<close>, which \<^verbatim>\<open>new Error(v)\<close> applies to its argument. An array is the
  comma-separated list of its elements, with \<^verbatim>\<open>null\<close> and \<^verbatim>\<open>undefined\<close> elements
  left empty.
\<close>

fun join_commas :: "string list \<Rightarrow> string" where
  "join_commas [] = []"
| "join_commas [s] = s"
| "join_commas (s # t # ts) = s @ '','' @ join_commas (t # ts)"

fun to_string :: "jsval \<Rightarrow> string" where
  "to_string JUndefined = ''undefined''"
| "to_string JNull = ''null''"
| "to_string (JBool b) = (if b then ''true'' else ''false'')"
| "to_string (JNum n) = number_to_string n"
| "to_string (JStr s) = s"
| "to_string (JArr xs) =
     join_commas (map (\<lambda>x. if x = JNull \<or> x = JUndefined then [] else to_string x) xs)"
| "to_string (JObj _) = ''[object Object]''"

text \<open>
  The own enumerable properties that object spread \<^verbatim>\<open>{...v}\<close> copies: those of an
  object, the indexed elements of an array, the indexed characters of a string, and none
  for any other value.
\<close>

fun own_props :: "jsval \<Rightarrow> (string \<times> jsval) list" where
  "own_props (JObj kvs) = kvs"
| "own_props (JArr xs) = zip (map decimal [0..<length xs]) xs"
| "own_props (JStr s) = zip (map decimal [0..<length s]) (map (\<lambda>c. JStr [c]) s)"
| "own_props _ = []"

text \<open>
  Writing a property: an existing property keeps its position and takes the new value, a
  new one is appended. The object literal \<^verbatim>\<open>{a: x, ...v, b: y}\<close> writes its properties
  from left to right.
\<close>

fun set_prop :: "(string \<times> jsval) list \<Rightarrow> string \<Rightarrow> jsval \<Rightarrow> (string \<times> jsval) list" where
  "set_prop [] k v = [(k, v)]"
| "set_prop ((k', v') # kvs) k v =
     (if k' = k then (k, v) # kvs else (k', v') # set_prop kvs k v)"

definition spread :: "(string \<times> jsval) list \<Rightarrow> jsval \<Rightarrow> (string \<times> jsval) list" where
  "spread kvs v = fold (\<lambda>(k, x) acc. set_prop acc k x) (own_props v) kvs"

section \<open>JSON text and the browser's local storage\<close>

text \<open>
  \<^verbatim>\<open>localStorage\<close> maps keys to strings. Of a stored string the scripts observe only
  whether it is empty (an empty string is falsy) and what \<^verbatim>\<open>JSON.parse\<close> makes of it,
  so a stored string is modelled as one of: the JSON text of a value, the empty string, or
  a non-empty string that is not JSON text.
\<close>

datatype stored = Json jsval | Empty | Malformed

text \<open>
  \<^verbatim>\<open>JSON.stringify\<close> writes \<^verbatim>\<open>undefined\<close> array elements as \<^verbatim>\<open>null\<close> and leaves
  out properties whose value is \<^verbatim>\<open>undefined\<close>; \<open>json_norm v\<close> is the value that the
  text of \<open>v\<close> parses back to. \<^verbatim>\<open>JSON.stringify(undefined)\<close> is \<^verbatim>\<open>undefined\<close>, which
  \<^verbatim>\<open>setItem\<close> stores as the string \<^verbatim>\<open>"undefined"\<close>: not JSON text.
\<close>

fun json_norm :: "jsval \<Rightarrow> jsval" where
  "json_norm (JArr xs) = JArr (map (\<lambda>x. if x = JUndefined then JNull else json_norm x) xs)"
| "json_norm (JObj kvs) =
     JObj (map (\<lambda>kv. (fst kv, json_norm (snd kv))) (filter (\<lambda>kv. snd kv \<noteq> JUndefined) kvs))"
| "json_norm v = v"

definition JSON_stringify :: "jsval \<Rightarrow> stored" where
  "JSON_stringify v = (if v = JUndefined then Malformed else Json (json_norm v))"

fun JSON_parse :: "stored \<Rightarrow> error + jsval" where
  "JSON_parse (Json v) = Inr v"
| "JSON_parse Empty = Inl (SyntaxError ''Unexpected end of JSON input'')"
| "JSON_parse Malformed = Inl (SyntaxError ''Unexpected token in JSON'')"

text \<open>A value that JSON text can denote: no \<^verbatim>\<open>undefined\<close> anywhere inside.\<close>

fun is_json :: "jsval \<Rightarrow> bool" where
  "is_json JUndefined = False"
| "is_json (JArr xs) = list_all is_json xs"
| "is_json (JObj kvs) = list_all (\<lambda>kv. is_json (snd kv)) kvs"
| "is_json _ = True"

type_synonym storage = "string \<rightharpoonup> stored"

text \<open>
  The recurring read \<^verbatim>\<open>const data = localStorage.getItem(k); return data ? JSON.parse(data) : d\<close>:
  \<^verbatim>\<open>getItem\<close> gives \<^verbatim>\<open>null\<close> for a missing key.
\<close>

fun item_truthy :: "stored option \<Rightarrow> bool" where
  "item_truthy None = False"
| "item_truthy (Some Empty) = False"
| "item_truthy (Some _) = True"

definition parse_or :: "stored option \<Rightarrow> jsval \<Rightarrow> error + jsval" where
  "parse_or data d = (if item_truthy data then JSON_parse (the data) else Inr d)"

section \<open>The remote gateway: class APIClient\<close>

text \<open>
  What \<^verbatim>\<open>fetch\<close> does is an input of the model: it rejects with an error (network
  failure), or resolves to a response with a status and a body, and \<^verbatim>\<open>response.json()\<close>
  either rejects (the body is not JSON) or resolves to the parsed body.
  \<^verbatim>\<open>response.ok\<close> is true for the statuses 200 to 299.
\<close>

record response =
  status :: nat
  json :: "error + jsval"

definition ok :: "response \<Rightarrow> bool" where
  "ok r = (200 \<le> status r \<and> status r \<le> 299)"

type_synonym fetched = "error + response"

definition makeRequest :: "string \<Rightarrow> fetched \<Rightarrow> error + jsval" where
  "makeRequest endpoint fetched =
     (case fetched of
        Inl e \<Rightarrow> Inl e
      | Inr response \<Rightarrow>
          (case json response of
             Inl e \<Rightarrow> Inl e
           | Inr data \<Rightarrow>
               if \<not> ok response then
                 ebind (get_prop data ''error'') (\<lambda>err.
                   Inl (Error (if truthy err then to_string err
                               else ''HTTP error! status: '' @ decimal (status response))))
               else
                 ebind (get_prop data ''success'') (\<lambda>success.
                   if \<not> truthy success then
                     ebind (get_prop data ''error'') (\<lambda>err.
                       Inl (Error (if truthy err then to_string err else ''API request failed'')))
                   else
                     ebind (get_prop data ''data'') (\<lambda>d.
                       Inr (if d \<noteq> JUndefined then d else data)))))"

definition healthCheck :: "fetched \<Rightarrow> bool" where
  "healthCheck fetched =
     (case fetched of
        Inl e \<Rightarrow> False
      | Inr response \<Rightarrow>
          (case json response of
             Inl e \<Rightarrow> False
           | Inr data \<Rightarrow>
               (case get_prop data ''status'' of
                  Inl e \<Rightarrow> False
                | Inr st \<Rightarrow> strict_eq st (JStr ''healthy''))))"

text \<open>
  The resource methods. Each issues one request; the request body does not influence the
  model, since the outcome of the request is an input. \<^verbatim>\<open>addLeaveRequest\<close> reads four
  properties of its argument before the request and stamps the created record with the
  current time \<open>isoNow\<close> (\<^verbatim>\<open>new Date().toISOString()\<close>).
\<close>

definition APIClient_getFaculty :: "fetched \<Rightarrow> error + jsval" where
  "APIClient_getFaculty fetched = makeRequest ''/faculty'' fetched"

definition APIClient_addFaculty :: "jsval \<Rightarrow> fetched \<Rightarrow> error + jsval" where
  "APIClient_addFaculty facultyData fetched =
     ebind (makeRequest ''/faculty'' fetched) (\<lambda>id.
       Inr (JObj (spread [(''id'', id)] facultyData)))"

definition APIClient_removeFaculty :: "jsval \<Rightarrow> fetched \<Rightarrow> error + jsval" where
  "APIClient_removeFaculty ident fetched = makeRequest (''/faculty/'' @ to_string ident) fetched"

definition APIClient_getRooms :: "fetched \<Rightarrow> error + jsval" where
  "APIClient_getRooms fetched = makeRequest ''/rooms'' fetched"

definition APIClient_addRoom :: "jsval \<Rightarrow> fetched \<Rightarrow> error + jsval" where
  "APIClient_addRoom roomData fetched =
     ebind (makeRequest ''/rooms'' fetched) (\<lambda>id.
       Inr (JObj (spread [(''id'', id)] roomData)))"

definition APIClient_removeRoom :: "jsval \<Rightarrow> fetched \<Rightarrow> error + jsval" where
  "APIClient_removeRoom ident fetched = makeRequest (''/rooms/'' @ to_string ident) fetched"

definition APIClient_getSubjects :: "fetched \<Rightarrow> error + jsval" where
  "APIClient_getSubjects fetched = makeRequest ''/subjects'' fetched"

definition APIClient_addSubject :: "jsval \<Rightarrow> fetched \<Rightarrow> error + jsval" where
  "APIClient_addSubject subjectData fetched =
     ebind (makeRequest ''/subjects'' fetched) (\<lambda>id.
       Inr (JObj (spread [(''id'', id)] subjectData)))"

definition APIClient_removeSubject :: "jsval \<Rightarrow> fetched \<Rightarrow> error + jsval" where
  "APIClient_removeSubject ident fetched = makeRequest (''/subjects/'' @ to_string ident) fetched"

definition APIClient_getLeaveRequests :: "fetched \<Rightarrow> error + jsval" where
  "APIClient_getLeaveRequests fetched = makeRequest ''/leave-requests'' fetched"

definition APIClient_addLeaveRequest :: "jsval \<Rightarrow> string \<Rightarrow> fetched \<Rightarrow> error + jsval" where
  "APIClient_addLeaveRequest leaveData isoNow fetched =
     ebind (get_prop leaveData ''faculty'') (\<lambda>faculty.
     ebind (get_prop leaveData ''faculty_name'') (\<lambda>faculty_name.
     ebind (get_prop leaveData ''date'') (\<lambda>date.
     ebind (get_prop leaveData ''period'') (\<lambda>period.
     ebind (get_prop leaveData ''reason'') (\<lambda>reason.
     ebind (makeRequest ''/leave-requests'' fetched) (\<lambda>id.
       Inr (JObj (set_prop (set_prop (spread [(''id'', id)] leaveData)
                    ''status'' (JStr ''pending'')) ''created_at'' (JStr isoNow)))))))))"

definition APIClient_getTimetable :: "fetched \<Rightarrow> error + jsval" where
  "APIClient_getTimetable fetched =
     (case makeRequest ''/timetable'' fetched of
        Inr data \<Rightarrow> Inr data
      | Inl e \<Rightarrow> if sublist ''not found'' (message e) then Inr JNull else Inl e)"

section \<open>Choosing the backend: class StorageManager\<close>

text \<open>
  The state is the manager's three flags, the browser's \<^verbatim>\<open>localStorage\<close>, and
  \<open>apiCalls\<close>, the list of the methods of \<^verbatim>\<open>window.apiClient\<close> that the manager has
  invoked so far (what a spy on the gateway records). The constructor's
  \<^verbatim>\<open>localStoragePrefix\<close> is never reassigned. The asynchronous methods are modelled
  as running one after the other, each to its end; where a method calls the gateway,
  \<^verbatim>\<open>window.apiClient\<close> is taken to be there, and the outcome of the request it makes is
  the input \<open>fetched\<close> of the method.
\<close>

record world =
  useLocalStorage :: bool
  initialized :: bool
  apiAvailable :: bool
  localStorage :: storage
  apiCalls :: "string list"

definition localStoragePrefix :: string where
  "localStoragePrefix = ''timetable_''"

definition constructor :: "storage \<Rightarrow> world" where
  "constructor ls =
     \<lparr>useLocalStorage = False, initialized = False, apiAvailable = False,
      localStorage = ls, apiCalls = []\<rparr>"

text \<open>
  \<^verbatim>\<open>waitForAPIClient\<close> polls \<^verbatim>\<open>window.apiClient\<close>, which another script sets and
  initialises in the meantime. What the manager sees at its \<open>n\<close>-th look (after \<open>n\<close>
  timer waits of \<open>interval\<close> milliseconds) is the input \<open>client n\<close>: the client is
  absent, or present with its \<^verbatim>\<open>initialized\<close> flag. The JavaScript function returns
  nothing; the model returns the number of timer waits it made.
\<close>

datatype client_view = Absent | Present bool

function wait_present :: "(nat \<Rightarrow> client_view) \<Rightarrow> nat \<Rightarrow> nat \<Rightarrow> nat" where
  "wait_present client maxAttempts attempts =
     (if client attempts = Absent \<and> attempts < maxAttempts
      then wait_present client maxAttempts (Suc attempts)
      else attempts)"
  by pat_completeness auto
termination
  by (relation "measure (\<lambda>(client, maxAttempts, attempts). maxAttempts - attempts)") auto

function wait_initialized :: "(nat \<Rightarrow> client_view) \<Rightarrow> nat \<Rightarrow> nat \<Rightarrow> error + nat" where
  "wait_initialized client maxAttempts attempts =
     (case client attempts of
        Absent \<Rightarrow> Inl (TypeError ''Cannot read properties of undefined (reading initialized)'')
      | Present ready \<Rightarrow>
          if \<not> ready \<and> attempts < maxAttempts * 2
          then wait_initialized client maxAttempts (Suc attempts)
          else Inr attempts)"
  by pat_completeness auto
termination
  by (relation "measure (\<lambda>(client, maxAttempts, attempts). maxAttempts * 2 - attempts)") auto

definition waitForAPIClient :: "(nat \<Rightarrow> client_view) \<Rightarrow> nat \<Rightarrow> nat \<Rightarrow> error + nat" where
  "waitForAPIClient client maxAttempts interval =
     (let attempts = wait_present client maxAttempts 0 in
      if client attempts = Absent
      then Inl (Error ''API client not available after waiting'')
      else wait_initialized client maxAttempts attempts)"

definition getDefaultUsers :: jsval where
  "getDefaultUsers = JArr [
     JObj [(''id'', JNum 1), (''username'', JStr ''admin''), (''password'', JStr ''admin123''),
           (''role'', JStr ''admin''), (''name'', JStr ''System Administrator''),
           (''email'', JStr ''admin@college.edu'')],
     JObj [(''id'', JNum 2), (''username'', JStr ''faculty1''), (''password'', JStr ''faculty123''),
           (''role'', JStr ''faculty''), (''name'', JStr ''S. P. Shinde''),
           (''email'', JStr ''shinde@avoce.edu'')],
     JObj [(''id'', JNum 3), (''username'', JStr ''student1''), (''password'', JStr ''student123''),
           (''role'', JStr ''student''), (''name'', JStr ''Sujay Patil''),
           (''email'', JStr ''sujay@college.edu'')]]"

definition defaultData :: "(string \<times> jsval) list" where
  "defaultData =
     [(''faculty'', JArr []), (''rooms'', JArr []), (''subjects'', JArr []),
      (''breaks'', JArr []), (''leaveRequests'', JArr []), (''users'', getDefaultUsers)]"

definition initLocalStorage :: "world \<Rightarrow> world" where
  "initLocalStorage w =
     w\<lparr>localStorage :=
         fold (\<lambda>(key, defaultValue) ls.
                 if \<not> item_truthy (ls (localStoragePrefix @ key))
                 then ls(localStoragePrefix @ key \<mapsto> JSON_stringify defaultValue)
                 else ls)
              defaultData (localStorage w)\<rparr>"

text \<open>
  \<^verbatim>\<open>init\<close>: the whole body is inside \<^verbatim>\<open>try\<close>; the handler switches to local storage
  and seeds it. \<open>probe\<close> is the outcome of the request that \<^verbatim>\<open>healthCheck\<close> makes.
\<close>

definition init :: "(nat \<Rightarrow> client_view) \<Rightarrow> fetched \<Rightarrow> world \<Rightarrow> world" where
  "init client probe w =
     (let attempt =
            (case waitForAPIClient client 50 100 of
               Inl e \<Rightarrow> Inl (e, w)
             | Inr n \<Rightarrow>
                 (let w1 = w\<lparr>apiAvailable := healthCheck probe,
                             apiCalls := apiCalls w @ [''healthCheck'']\<rparr>
                  in if apiAvailable w1 then Inr (w1\<lparr>useLocalStorage := False\<rparr>)
                     else Inl (Error ''API health check failed'', w1)));
          w2 = (case attempt of
                  Inr w' \<Rightarrow> w'
                | Inl (e, w') \<Rightarrow> initLocalStorage (w'\<lparr>useLocalStorage := True\<rparr>))
      in w2\<lparr>initialized := True\<rparr>)"

text \<open>
  Array methods on a value that may not be an array: \<^verbatim>\<open>v.push\<close>, \<^verbatim>\<open>v.filter\<close> and
  \<^verbatim>\<open>v.find\<close> throw a TypeError unless \<open>v\<close> is an array. \<open>without_id ident xs\<close> is
  \<^verbatim>\<open>xs.filter(f => f.id !== id)\<close>, which reads \<^verbatim>\<open>f.id\<close> of every element from left
  to right.
\<close>

fun as_array :: "string \<Rightarrow> jsval \<Rightarrow> error + jsval list" where
  "as_array method (JArr xs) = Inr xs"
| "as_array method JUndefined =
     Inl (TypeError (''Cannot read properties of undefined (reading '' @ method @ '')''))"
| "as_array method JNull =
     Inl (TypeError (''Cannot read properties of null (reading '' @ method @ '')''))"
| "as_array method _ = Inl (TypeError (method @ '' is not a function''))"

fun without_id :: "jsval \<Rightarrow> jsval list \<Rightarrow> error + jsval list" where
  "without_id ident [] = Inr []"
| "without_id ident (f # fs) =
     ebind (get_prop f ''id'') (\<lambda>fid.
     ebind (without_id ident fs) (\<lambda>rest.
       Inr (if \<not> strict_eq fid ident then f # rest else rest)))"

subsection \<open>Faculty\<close>

definition StorageManager_getFacultyFromLocalStorage :: "world \<Rightarrow> error + jsval" where
  "StorageManager_getFacultyFromLocalStorage w =
     parse_or (localStorage w (localStoragePrefix @ ''faculty'')) (JArr [])"

definition StorageManager_getFaculty ::
  "(nat \<Rightarrow> client_view) \<Rightarrow> fetched \<Rightarrow> fetched \<Rightarrow> world \<Rightarrow> (error + jsval) \<times> world" where
  "StorageManager_getFaculty client probe fetched w =
     (let w1 = (if \<not> initialized w then init client probe w else w) in
      if useLocalStorage w1 then
        (parse_or (localStorage w1 (localStoragePrefix @ ''faculty'')) (JArr []), w1)
      else
        (let w2 = w1\<lparr>apiCalls := apiCalls w1 @ [''getFaculty'']\<rparr> in
         case APIClient_getFaculty fetched of
           Inr v \<Rightarrow> (Inr v, w2)
         | Inl e \<Rightarrow> (StorageManager_getFacultyFromLocalStorage w2, w2)))"

definition StorageManager_setFaculty :: "jsval \<Rightarrow> world \<Rightarrow> world" where
  "StorageManager_setFaculty faculty w =
     (if useLocalStorage w
      then w\<lparr>localStorage := (localStorage w)(localStoragePrefix @ ''faculty'' \<mapsto> JSON_stringify faculty)\<rparr>
      else w)"

definition StorageManager_addFaculty ::
  "jsval \<Rightarrow> int \<Rightarrow> fetched \<Rightarrow> world \<Rightarrow> (error + jsval) \<times> world" where
  "StorageManager_addFaculty facultyData now fetched w =
     (if useLocalStorage w then
        (case StorageManager_getFacultyFromLocalStorage w of
           Inl e \<Rightarrow> (Inl e, w)
         | Inr faculty \<Rightarrow>
             (let newFaculty = JObj (spread [(''id'', JNum now)] facultyData) in
              case as_array ''push'' faculty of
                Inl e \<Rightarrow> (Inl e, w)
              | Inr xs \<Rightarrow> (Inr newFaculty, StorageManager_setFaculty (JArr (xs @ [newFaculty])) w)))
      else
        (APIClient_addFaculty facultyData fetched, w\<lparr>apiCalls := apiCalls w @ [''addFaculty'']\<rparr>))"

definition StorageManager_removeFaculty ::
  "jsval \<Rightarrow> fetched \<Rightarrow> world \<Rightarrow> (error + jsval) \<times> world" where
  "StorageManager_removeFaculty ident fetched w =
     (if useLocalStorage w then
        (case StorageManager_getFacultyFromLocalStorage w of
           Inl e \<Rightarrow> (Inl e, w)
         | Inr faculty \<Rightarrow>
             (case ebind (as_array ''filter'' faculty) (without_id ident) of
                Inl e \<Rightarrow> (Inl e, w)
              | Inr filtered \<Rightarrow> (Inr JUndefined, StorageManager_setFaculty (JArr filtered) w)))
      else
        (APIClient_removeFaculty ident fetched, w\<lparr>apiCalls := apiCalls w @ [''removeFaculty'']\<rparr>))"

subsection \<open>Rooms\<close>

definition StorageManager_getRoomsFromLocalStorage :: "world \<Rightarrow> error + jsval" where
  "StorageManager_getRoomsFromLocalStorage w =
     parse_or (localStorage w (localStoragePrefix @ ''rooms'')) (JArr [])"

definition StorageManager_getRooms ::
  "(nat \<Rightarrow> client_view) \<Rightarrow> fetched \<Rightarrow> fetched \<Rightarrow> world \<Rightarrow> (error + jsval) \<times> world" where
  "StorageManager_getRooms client probe fetched w =
     (let w1 = (if \<not> initialized w then init client probe w else w) in
      if useLocalStorage w1 then
        (parse_or (localStorage w1 (localStoragePrefix @ ''rooms'')) (JArr []), w1)
      else
        (let w2 = w1\<lparr>apiCalls := apiCalls w1 @ [''getRooms'']\<rparr> in
         case APIClient_getRooms fetched of
           Inr v \<Rightarrow> (Inr v, w2)
         | Inl e \<Rightarrow> (StorageManager_getRoomsFromLocalStorage w2, w2)))"

definition StorageManager_setRooms :: "jsval \<Rightarrow> world \<Rightarrow> world" where
  "StorageManager_setRooms rooms w =
     (if useLocalStorage w
      then w\<lparr>localStorage := (localStorage w)(localStoragePrefix @ ''rooms'' \<mapsto> JSON_stringify rooms)\<rparr>
      else w)"

definition StorageManager_addRoom ::
  "jsval \<Rightarrow> int \<Rightarrow> fetched \<Rightarrow> world \<Rightarrow> (error + jsval) \<times> world" where
  "StorageManager_addRoom roomData now fetched w =
     (if useLocalStorage w then
        (case StorageManager_getRoomsFromLocalStorage w of
           Inl e \<Rightarrow> (Inl e, w)
         | Inr rooms \<Rightarrow>
             (let newRoom = JObj (spread [(''id'', JNum now)] roomData) in
              case as_array ''push'' rooms of
                Inl e \<Rightarrow> (Inl e, w)
              | Inr xs \<Rightarrow> (Inr newRoom, StorageManager_setRooms (JArr (xs @ [newRoom])) w)))
      else
        (APIClient_addRoom roomData fetched, w\<lparr>apiCalls := apiCalls w @ [''addRoom'']\<rparr>))"

definition StorageManager_removeRoom ::
  "jsval \<Rightarrow> fetched \<Rightarrow> world \<Rightarrow> (error + jsval) \<times> world" where
  "StorageManager_removeRoom ident fetched w =
     (if useLocalStorage w then
        (case StorageManager_getRoomsFromLocalStorage w of
           Inl e \<Rightarrow> (Inl e, w)
         | Inr rooms \<Rightarrow>
             (case ebind (as_array ''filter'' rooms) (without_id ident) of
                Inl e \<Rightarrow> (Inl e, w)
              | Inr filtered \<Rightarrow> (Inr JUndefined, StorageManager_setRooms (JArr filtered) w)))
      else
        (APIClient_removeRoom ident fetched, w\<lparr>apiCalls := apiCalls w @ [''removeRoom'']\<rparr>))"

subsection \<open>Subjects\<close>

definition StorageManager_getSubjectsFromLocalStorage :: "world \<Rightarrow> error + jsval" where
  "StorageManager_getSubjectsFromLocalStorage w =
     parse_or (localStorage w (localStoragePrefix @ ''subjects'')) (JArr [])"

definition StorageManager_getSubjects ::
  "(nat \<Rightarrow> client_view) \<Rightarrow> fetched \<Rightarrow> fetched \<Rightarrow> world \<Rightarrow> (error + jsval) \<times> world" where
  "StorageManager_getSubjects client probe fetched w =
     (let w1 = (if \<not> initialized w then init client probe w else w) in
      if useLocalStorage w1 then
        (parse_or (localStorage w1 (localStoragePrefix @ ''subjects'')) (JArr []), w1)
      else
        (let w2 = w1\<lparr>apiCalls := apiCalls w1 @ [''getSubjects'']\<rparr> in
         case APIClient_getSubjects fetched of
           Inr v \<Rightarrow> (Inr v, w2)
         | Inl e \<Rightarrow> (StorageManager_getSubjectsFromLocalStorage w2, w2)))"

definition StorageManager_setSubjects :: "jsval \<Rightarrow> world \<Rightarrow> world" where
  "StorageManager_setSubjects subjects w =
     (if useLocalStorage w
      then w\<lparr>localStorage := (localStorage w)(localStoragePrefix @ ''subjects'' \<mapsto> JSON_stringify subjects)\<rparr>
      else w)"

definition StorageManager_addSubject ::
  "jsval \<Rightarrow> int \<Rightarrow> fetched \<Rightarrow> world \<Rightarrow> (error + jsval) \<times> world" where
  "StorageManager_addSubject subjectData now fetched w =
     (if useLocalStorage w then
        (case StorageManager_getSubjectsFromLocalStorage w of
           Inl e \<Rightarrow> (Inl e, w)
         | Inr subjects \<Rightarrow>
             (let newSubject = JObj (spread [(''id'', JNum now)] subjectData) in
              case as_array ''push'' subjects of
                Inl e \<Rightarrow> (Inl e, w)
              | Inr xs \<Rightarrow> (Inr newSubject, StorageManager_setSubjects (JArr (xs @ [newSubject])) w)))
      else
        (APIClient_addSubject subjectData fetched, w\<lparr>apiCalls := apiCalls w @ [''addSubject'']\<rparr>))"

definition StorageManager_removeSubject ::
  "jsval \<Rightarrow> fetched \<Rightarrow> world \<Rightarrow> (error + jsval) \<times> world" where
  "StorageManager_removeSubject ident fetched w =
     (if useLocalStorage w then
        (case StorageManager_getSubjectsFromLocalStorage w of
           Inl e \<Rightarrow> (Inl e, w)
         | Inr subjects \<Rightarrow>
             (case ebind (as_array ''filter'' subjects) (without_id ident) of
                Inl e \<Rightarrow> (Inl e, w)
              | Inr filtered \<Rightarrow> (Inr JUndefined, StorageManager_setSubjects (JArr filtered) w)))
      else
        (APIClient_removeSubject ident fetched, w\<lparr>apiCalls := apiCalls w @ [''removeSubject'']\<rparr>))"

subsection \<open>Leave requests\<close>

definition StorageManager_getLeaveRequestsFromLocalStorage :: "world \<Rightarrow> error + jsval" where
  "StorageManager_getLeaveRequestsFromLocalStorage w =
     parse_or (localStorage w (localStoragePrefix @ ''leaveRequests'')) (JArr [])"

definition StorageManager_getLeaveRequests ::
  "(nat \<Rightarrow> client_view) \<Rightarrow> fetched \<Rightarrow> fetched \<Rightarrow> world \<Rightarrow> (error + jsval) \<times> world" where
  "StorageManager_getLeaveRequests client probe fetched w =
     (let w1 = (if \<not> initialized w then init client probe w else w) in
      if useLocalStorage w1 then
        (parse_or (localStorage w1 (localStoragePrefix @ ''leaveRequests'')) (JArr []), w1)
      else
        (let w2 = w1\<lparr>apiCalls := apiCalls w1 @ [''getLeaveRequests'']\<rparr> in
         case APIClient_getLeaveRequests fetched of
           Inr v \<Rightarrow> (Inr v, w2)
         | Inl e \<Rightarrow> (StorageManager_getLeaveRequestsFromLocalStorage w2, w2)))"

definition StorageManager_setLeaveRequests :: "jsval \<Rightarrow> world \<Rightarrow> world" where
  "StorageManager_setLeaveRequests requests w =
     (if useLocalStorage w
      then w\<lparr>localStorage := (localStorage w)(localStoragePrefix @ ''leaveRequests'' \<mapsto> JSON_stringify requests)\<rparr>
      else w)"

definition StorageManager_addLeaveRequest ::
  "jsval \<Rightarrow> int \<Rightarrow> string \<Rightarrow> fetched \<Rightarrow> world \<Rightarrow> (error + jsval) \<times> world" where
  "StorageManager_addLeaveRequest requestData now isoNow fetched w =
     (if useLocalStorage w then
        (case StorageManager_getLeaveRequestsFromLocalStorage w of
           Inl e \<Rightarrow> (Inl e, w)
         | Inr requests \<Rightarrow>
             (let newRequest =
                    JObj (spread [(''id'', JNum now), (''status'', JStr ''pending''),
                                  (''created_at'', JStr isoNow)] requestData) in
              case as_array ''push'' requests of
                Inl e \<Rightarrow> (Inl e, w)
              | Inr xs \<Rightarrow>
                  (Inr newRequest, StorageManager_setLeaveRequests (JArr (xs @ [newRequest])) w)))
      else
        (APIClient_addLeaveRequest requestData isoNow fetched,
         w\<lparr>apiCalls := apiCalls w @ [''addLeaveRequest'']\<rparr>))"

subsection \<open>Breaks and practicals\<close>

text \<open>These methods are synchronous and do not look at the mode.\<close>

definition StorageManager_getBreaks :: "world \<Rightarrow> error + jsval" where
  "StorageManager_getBreaks w =
     parse_or (localStorage w (localStoragePrefix @ ''breaks'')) (JArr [])"

definition StorageManager_setBreaks :: "jsval \<Rightarrow> world \<Rightarrow> world" where
  "StorageManager_setBreaks breaks w =
     w\<lparr>localStorage := (localStorage w)(localStoragePrefix @ ''breaks'' \<mapsto> JSON_stringify breaks)\<rparr>"

definition StorageManager_addBreak :: "jsval \<Rightarrow> int \<Rightarrow> world \<Rightarrow> (error + jsval) \<times> world" where
  "StorageManager_addBreak breakData now w =
     (case StorageManager_getBreaks w of
        Inl e \<Rightarrow> (Inl e, w)
      | Inr breaks \<Rightarrow>
          (let newBreak = JObj (spread [(''id'', JNum now)] breakData) in
           case as_array ''push'' breaks of
             Inl e \<Rightarrow> (Inl e, w)
           | Inr xs \<Rightarrow> (Inr newBreak, StorageManager_setBreaks (JArr (xs @ [newBreak])) w)))"

definition StorageManager_removeBreak :: "jsval \<Rightarrow> world \<Rightarrow> (error + jsval) \<times> world" where
  "StorageManager_removeBreak ident w =
     (case StorageManager_getBreaks w of
        Inl e \<Rightarrow> (Inl e, w)
      | Inr breaks \<Rightarrow>
          (case ebind (as_array ''filter'' breaks) (without_id ident) of
             Inl e \<Rightarrow> (Inl e, w)
           | Inr filtered \<Rightarrow> (Inr JUndefined, StorageManager_setBreaks (JArr filtered) w)))"

definition StorageManager_getPracticals :: "world \<Rightarrow> error + jsval" where
  "StorageManager_getPracticals w =
     parse_or (localStorage w (localStoragePrefix @ ''practicals'')) (JArr [])"

definition StorageManager_setPracticals :: "jsval \<Rightarrow> world \<Rightarrow> world" where
  "StorageManager_setPracticals practicals w =
     w\<lparr>localStorage :=
         (localStorage w)(localStoragePrefix @ ''practicals'' \<mapsto> JSON_stringify practicals)\<rparr>"

definition StorageManager_addPractical :: "jsval \<Rightarrow> int \<Rightarrow> world \<Rightarrow> (error + jsval) \<times> world" where
  "StorageManager_addPractical practicalData now w =
     (case StorageManager_getPracticals w of
        Inl e \<Rightarrow> (Inl e, w)
      | Inr practicals \<Rightarrow>
          (let newPractical = JObj (spread [(''id'', JNum now)] practicalData) in
           case as_array ''push'' practicals of
             Inl e \<Rightarrow> (Inl e, w)
           | Inr xs \<Rightarrow>
               (Inr newPractical, StorageManager_setPracticals (JArr (xs @ [newPractical])) w)))"

definition StorageManager_removePractical :: "jsval \<Rightarrow> world \<Rightarrow> (error + jsval) \<times> world" where
  "StorageManager_removePractical ident w =
     (case StorageManager_getPracticals w of
        Inl e \<Rightarrow> (Inl e, w)
      | Inr practicals \<Rightarrow>
          (case ebind (as_array ''filter'' practicals) (without_id ident) of
             Inl e \<Rightarrow> (Inl e, w)
           | Inr filtered \<Rightarrow> (Inr JUndefined, StorageManager_setPracticals (JArr filtered) w)))"

subsection \<open>Timetable\<close>

definition StorageManager_getTimetable ::
  "(nat \<Rightarrow> client_view) \<Rightarrow> fetched \<Rightarrow> fetched \<Rightarrow> world \<Rightarrow> (error + jsval) \<times> world" where
  "StorageManager_getTimetable client probe fetched w =
     (let w1 = (if \<not> initialized w then init client probe w else w) in
      if useLocalStorage w1 then
        (parse_or (localStorage w1 (localStoragePrefix @ ''timetable'')) JNull, w1)
      else
        (let w2 = w1\<lparr>apiCalls := apiCalls w1 @ [''getTimetable'']\<rparr> in
         case APIClient_getTimetable fetched of
           Inr v \<Rightarrow> (Inr v, w2)
         | Inl e \<Rightarrow> (parse_or (localStorage w2 (localStoragePrefix @ ''timetable'')) JNull, w2)))"

definition StorageManager_setTimetable :: "jsval \<Rightarrow> world \<Rightarrow> world" where
  "StorageManager_setTimetable timetable w =
     (if useLocalStorage w
      then w\<lparr>localStorage :=
               (localStorage w)(localStoragePrefix @ ''timetable'' \<mapsto> JSON_stringify timetable)\<rparr>
      else w)"

section \<open>The cache in front of the API: class APIStorageAdapter\<close>

text \<open>
  The adapter talks to a gateway object \<^verbatim>\<open>apiClient\<close> whose methods resolve to a
  response envelope (\<^verbatim>\<open>success\<close>, \<^verbatim>\<open>data\<close>, \<^verbatim>\<open>id\<close>, \<^verbatim>\<open>user\<close>) or reject.
  What a gateway call does is an input of each operation: \<open>Inl e\<close> when the call
  rejects with \<open>e\<close>, \<open>Inr response\<close> when it resolves. An operation that makes two calls
  (the write, then the refreshing read) takes two such inputs.
\<close>

record cache =
  cache_faculty :: jsval
  cache_rooms :: jsval
  cache_subjects :: jsval
  cache_leaveRequests :: jsval
  cache_timetable :: jsval
  cache_currentUser :: jsval

definition APIStorageAdapter_constructor :: cache where
  "APIStorageAdapter_constructor =
     \<lparr>cache_faculty = JArr [], cache_rooms = JArr [], cache_subjects = JArr [],
      cache_leaveRequests = JArr [], cache_timetable = JNull, cache_currentUser = JNull\<rparr>"

type_synonym reply = "error + jsval"

definition APIStorageAdapter_getFaculty :: "reply \<Rightarrow> cache \<Rightarrow> jsval \<times> cache" where
  "APIStorageAdapter_getFaculty reply c =
     (case ebind reply (\<lambda>response.
           ebind (get_prop response ''success'') (\<lambda>success.
             if truthy success then
               ebind (get_prop response ''data'') (\<lambda>d. Inr (d, c\<lparr>cache_faculty := d\<rparr>))
             else Inr (cache_faculty c, c))) of
        Inr result \<Rightarrow> result
      | Inl e \<Rightarrow> (cache_faculty c, c))"

definition APIStorageAdapter_addFaculty ::
  "jsval \<Rightarrow> reply \<Rightarrow> reply \<Rightarrow> cache \<Rightarrow> (error + jsval) \<times> cache" where
  "APIStorageAdapter_addFaculty facultyData reply refresh c =
     (case reply of
        Inl e \<Rightarrow> (Inl e, c)
      | Inr response \<Rightarrow>
          (case get_prop response ''success'' of
             Inl e \<Rightarrow> (Inl e, c)
           | Inr success \<Rightarrow>
               if truthy success then
                 (let c' = snd (APIStorageAdapter_getFaculty refresh c) in
                  (ebind (get_prop response ''id'') (\<lambda>i.
                     Inr (JObj (set_prop (spread [] facultyData) ''id'' i))), c'))
               else (Inl (Error ''Failed to add faculty''), c)))"



definition APIStorageAdapter_getRooms :: "reply \<Rightarrow> cache \<Rightarrow> jsval \<times> cache" where
  "APIStorageAdapter_getRooms reply c =
     (case ebind reply (\<lambda>response.
           ebind (get_prop response ''success'') (\<lambda>success.
             if truthy success then
               ebind (get_prop response ''data'') (\<lambda>d. Inr (d, c\<lparr>cache_rooms := d\<rparr>))
             else Inr (cache_rooms c, c))) of
        Inr result \<Rightarrow> result
      | Inl e \<Rightarrow> (cache_rooms c, c))"

definition APIStorageAdapter_addRoom ::
  "jsval \<Rightarrow> reply \<Rightarrow> reply \<Rightarrow> cache \<Rightarrow> (error + jsval) \<times> cache" where
  "APIStorageAdapter_addRoom roomData reply refresh c =
     (case reply of
        Inl e \<Rightarrow> (Inl e, c)
      | Inr response \<Rightarrow>
          (case get_prop response ''success'' of
             Inl e \<Rightarrow> (Inl e, c)
           | Inr success \<Rightarrow>
               if truthy success then
                 (let c' = snd (APIStorageAdapter_getRooms refresh c) in
                  (ebind (get_prop response ''id'') (\<lambda>i.
                     Inr (JObj (set_prop (spread [] roomData) ''id'' i))), c'))
               else (Inl (Error ''Failed to add room''), c)))"

definition APIStorageAdapter_getSubjects :: "reply \<Rightarrow> cache \<Rightarrow> jsval \<times> cache" where
  "APIStorageAdapter_getSubjects reply c =
     (case ebind reply (\<lambda>response.
           ebind (get_prop response ''success'') (\<lambda>success.
             if truthy success then
               ebind (get_prop response ''data'') (\<lambda>d. Inr (d, c\<lparr>cache_subjects := d\<rparr>))
             else Inr (cache_subjects c, c))) of
        Inr result \<Rightarrow> result
      | Inl e \<Rightarrow> (cache_subjects c, c))"

definition APIStorageAdapter_addSubject ::
  "jsval \<Rightarrow> reply \<Rightarrow> reply \<Rightarrow> cache \<Rightarrow> (error + jsval) \<times> cache" where
  "APIStorageAdapter_addSubject subjectData reply refresh c =
     (case reply of
        Inl e \<Rightarrow> (Inl e, c)
      | Inr response \<Rightarrow>
          (case get_prop response ''success'' of
             Inl e \<Rightarrow> (Inl e, c)
           | Inr success \<Rightarrow>
               if truthy success then
                 (let c' = snd (APIStorageAdapter_getSubjects refresh c) in
                  (ebind (get_prop response ''id'') (\<lambda>i.
                     Inr (JObj (set_prop (spread [] subjectData) ''id'' i))), c'))
               else (Inl (Error ''Failed to add subject''), c)))"

definition APIStorageAdapter_getLeaveRequests :: "reply \<Rightarrow> cache \<Rightarrow> jsval \<times> cache" where
  "APIStorageAdapter_getLeaveRequests reply c =
     (case ebind reply (\<lambda>response.
           ebind (get_prop response ''success'') (\<lambda>success.
             if truthy success then
               ebind (get_prop response ''data'') (\<lambda>d. Inr (d, c\<lparr>cache_leaveRequests := d\<rparr>))
             else Inr (cache_leaveRequests c, c))) of
        Inr result \<Rightarrow> result
      | Inl e \<Rightarrow> (cache_leaveRequests c, c))"

definition APIStorageAdapter_addLeaveRequest ::
  "jsval \<Rightarrow> string \<Rightarrow> reply \<Rightarrow> reply \<Rightarrow> cache \<Rightarrow> (error + jsval) \<times> cache" where
  "APIStorageAdapter_addLeaveRequest requestData isoNow reply refresh c =
     (case reply of
        Inl e \<Rightarrow> (Inl e, c)
      | Inr response \<Rightarrow>
          (case get_prop response ''success'' of
             Inl e \<Rightarrow> (Inl e, c)
           | Inr success \<Rightarrow>
               if truthy success then
                 (let c' = snd (APIStorageAdapter_getLeaveRequests refresh c) in
                  (ebind (get_prop response ''id'') (\<lambda>i.
                     Inr (JObj (set_prop (set_prop (set_prop (spread [] requestData)
                            ''id'' i) ''status'' (JStr ''pending'')) ''createdAt'' (JStr isoNow)))),
                   c'))
               else (Inl (Error ''Failed to add leave request''), c)))"



subsection \<open>Timetable\<close>

definition getDefaultTimetable :: jsval where
  "getDefaultTimetable =
     (let days = [''Monday'', ''Tuesday'', ''Wednesday'', ''Thursday'', ''Friday''];
          periods = [''9:00-10:00'', ''10:00-11:00'', ''11:00-12:00'', ''12:00-1:00'',
                     ''2:00-3:00'', ''3:00-4:00'']
      in JObj (fold (\<lambda>day defaultTimetable.
                 set_prop defaultTimetable day
                   (JObj (fold (\<lambda>period slots. set_prop slots period JNull) periods [])))
               days []))"

definition APIStorageAdapter_getTimetable :: "reply \<Rightarrow> cache \<Rightarrow> jsval \<times> cache" where
  "APIStorageAdapter_getTimetable reply c =
     (let fallback = (if truthy (cache_timetable c) then cache_timetable c else getDefaultTimetable)
      in case ebind reply (\<lambda>response.
           ebind (get_prop response ''success'') (\<lambda>success.
             if truthy success then
               ebind (get_prop response ''data'') (\<lambda>d.
                 if truthy d then
                   ebind (get_prop d ''timetable'') (\<lambda>t. Inr (t, c\<lparr>cache_timetable := t\<rparr>))
                 else Inr (fallback, c))
             else Inr (fallback, c))) of
        Inr result \<Rightarrow> result
      | Inl e \<Rightarrow> (fallback, c))"



subsection \<open>Current user\<close>



definition APIStorageAdapter_getCurrentUser :: "cache \<Rightarrow> jsval" where
  "APIStorageAdapter_getCurrentUser c = cache_currentUser c"



subsection \<open>Direct cache setters\<close>






section \<open>Operations as data\<close>

text \<open>
  To speak about every operation and about sequences of operations, the calls a consumer
  can make are collected in a datatype, each with its arguments and with the inputs that
  stand for what the environment does during the call.

  A gateway call of the adapter fails when it rejects or when its response does not carry a
  truthy \<^verbatim>\<open>success\<close>.
\<close>

definition reply_failed :: "reply \<Rightarrow> bool" where
  "reply_failed reply =
     (case reply of
        Inl e \<Rightarrow> True
      | Inr response \<Rightarrow>
          (case get_prop response ''success'' of
             Inl e \<Rightarrow> True
           | Inr success \<Rightarrow> \<not> truthy success))"




text \<open>
  The operations of the storage manager on breaks and practicals. Updating a break or a
  practical is done by the consumers through \<^verbatim>\<open>setBreaks\<close> and \<^verbatim>\<open>setPracticals\<close>
  with the edited list.
\<close>

datatype local_op =
    GetBreaks
  | SetBreaks jsval
  | AddBreak jsval int
  | RemoveBreak jsval
  | GetPracticals
  | SetPracticals jsval
  | AddPractical jsval int
  | RemovePractical jsval

fun local_perform :: "local_op \<Rightarrow> world \<Rightarrow> (error + jsval) \<times> world" where
  "local_perform GetBreaks w = (StorageManager_getBreaks w, w)"
| "local_perform (SetBreaks v) w = (Inr JUndefined, StorageManager_setBreaks v w)"
| "local_perform (AddBreak d now) w = StorageManager_addBreak d now w"
| "local_perform (RemoveBreak i) w = StorageManager_removeBreak i w"
| "local_perform GetPracticals w = (StorageManager_getPracticals w, w)"
| "local_perform (SetPracticals v) w = (Inr JUndefined, StorageManager_setPracticals v w)"
| "local_perform (AddPractical d now) w = StorageManager_addPractical d now w"
| "local_perform (RemovePractical i) w = StorageManager_removePractical i w"

text \<open>
  A sequence of operations; an operation that throws leaves the state as it was at the
  throw, and the consumer goes on with the next one.
\<close>

fun local_perform_all :: "local_op list \<Rightarrow> world \<Rightarrow> world" where
  "local_perform_all [] w = w"
| "local_perform_all (opn # ops) w = local_perform_all ops (snd (local_perform opn w))"


text \<open>
  \<open>has_id ident f\<close>: the record \<open>f\<close> carries the identifier \<open>ident\<close>, as tested by
  \<^verbatim>\<open>f.id === id\<close>. \<open>local_keys\<close> are the two storage keys of breaks and practicals, and
  \<open>framed w w'\<close> says that \<open>w'\<close> differs from \<open>w\<close> at most in what \<^verbatim>\<open>localStorage\<close>
  holds under these two keys.
\<close>

definition has_id :: "jsval \<Rightarrow> jsval \<Rightarrow> bool" where
  "has_id ident f = (case get_prop f ''id'' of Inl e \<Rightarrow> False | Inr fid \<Rightarrow> strict_eq fid ident)"

definition local_keys :: "string set" where
  "local_keys = {localStoragePrefix @ ''breaks'', localStoragePrefix @ ''practicals''}"

definition framed :: "world \<Rightarrow> world \<Rightarrow> bool" where
  "framed w w' \<longleftrightarrow>
     w' = w\<lparr>localStorage := localStorage w'\<rparr>
     \<and> localStorage w' |` (- local_keys) = localStorage w |` (- local_keys)"

text \<open>
  \<open>seeded ls k d\<close> is what a key holds after seeding with the default \<open>d\<close>: its old
  string when that was truthy, the JSON text of \<open>d\<close> otherwise; \<open>seed_step\<close> is the
  body of the loop in \<^verbatim>\<open>initLocalStorage\<close>. \<open>reply_data\<close> and
  \<open>reply_user\<close> are the \<^verbatim>\<open>data\<close> and the \<^verbatim>\<open>user\<close> of a gateway response, and \<open>adapter_result\<close> is what an operation of the
  adapter returns or throws (the \<^verbatim>\<open>get\<close> methods cannot throw).
\<close>

definition seed_step :: "string \<Rightarrow> string \<times> jsval \<Rightarrow> storage \<Rightarrow> storage" where
  "seed_step P = (\<lambda>(key, defaultValue) ls.
           if \<not> item_truthy (ls (P @ key)) then ls(P @ key \<mapsto> JSON_stringify defaultValue) else ls)"

definition seeded :: "storage \<Rightarrow> string \<Rightarrow> jsval \<Rightarrow> stored option" where
  "seeded ls k d = (if item_truthy (ls k) then ls k else Some (Json d))"




section \<open>Properties\<close>

subsection \<open>Auxiliary facts\<close>

declare wait_present.simps [simp del] wait_initialized.simps [simp del]

lemma ebind_simps [simp]:
  "ebind (Inl e) f = Inl e"
  "ebind (Inr v) f = f v"
  by (simp_all add: ebind_def)

lemma json_norm_id: "is_json v \<Longrightarrow> json_norm v = v"
proof (induction v)
  case (JArr xs)
  then have "\<And>x. x \<in> set xs \<Longrightarrow> (if x = JUndefined then JNull else json_norm x) = x"
    by (auto simp: list_all_iff)
  then show ?case by (simp add: map_idI)
next
  case (JObj kvs)
  then have keep: "filter (\<lambda>kv. snd kv \<noteq> JUndefined) kvs = kvs"
    by (auto simp: list_all_iff intro!: filter_True)
  from JObj have "\<And>kv. kv \<in> set kvs \<Longrightarrow> (fst kv, json_norm (snd kv)) = kv"
    by (auto simp: list_all_iff snds.simps)
  with keep show ?case by (simp add: map_idI)
qed simp_all

lemma get_prop_defined: "f \<noteq> JNull \<Longrightarrow> f \<noteq> JUndefined \<Longrightarrow> \<exists>v. get_prop f k = Inr v"
  by (cases f) simp_all

lemma without_id_absent:
  "JNull \<notin> set xs \<Longrightarrow> JUndefined \<notin> set xs \<Longrightarrow> \<forall>f\<in>set xs. \<not> has_id ident f \<Longrightarrow>
   without_id ident xs = Inr xs"
proof (induction xs)
  case Nil
  show ?case by simp
next
  case (Cons f fs)
  then obtain fid where "get_prop f ''id'' = Inr fid"
    using get_prop_defined [of f "''id''"] by auto
  with Cons show ?case by (simp add: has_id_def)
qed

lemma is_json_no_undefined: "is_json (JArr xs) \<Longrightarrow> JUndefined \<notin> set xs"
  by (auto simp: list_all_iff)

lemma store_same:
  "localStorage w k = Some v \<Longrightarrow> w\<lparr>localStorage := (localStorage w)(k \<mapsto> v)\<rparr> = w"
  by (simp add: map_upd_triv)

lemma filter_unchanged:
  assumes "is_json (JArr xs)" "JNull \<notin> set xs" "\<forall>f\<in>set xs. \<not> has_id ident f"
  shows "ebind (as_array ''filter'' (JArr xs)) (without_id ident) = Inr xs"
    and "JSON_stringify (JArr xs) = Json (JArr xs)"
  using assms without_id_absent [of xs ident] is_json_no_undefined [of xs] json_norm_id [of "JArr xs"]
  by (simp_all add: JSON_stringify_def)

lemma restrict_upd_out: "k \<in> K \<Longrightarrow> (m(k \<mapsto> v)) |` (- K) = m |` (- K)"
  by (auto simp: restrict_map_def fun_eq_iff)

lemma framed_refl: "framed w w"
  by (simp add: framed_def)

lemma framed_upd:
  "k \<in> local_keys \<Longrightarrow> framed w (w\<lparr>localStorage := (localStorage w)(k \<mapsto> v)\<rparr>)"
  by (simp add: framed_def restrict_upd_out)

lemma framed_setBreaks: "framed w (StorageManager_setBreaks v w)"
  by (simp add: StorageManager_setBreaks_def framed_upd local_keys_def)

lemma framed_setPracticals: "framed w (StorageManager_setPracticals v w)"
  by (simp add: StorageManager_setPracticals_def framed_upd local_keys_def)

lemma local_perform_frame: "framed w (snd (local_perform opn w))"
proof (cases opn)
  case (AddBreak d now)
  then show ?thesis
    by (simp add: StorageManager_addBreak_def framed_refl framed_setBreaks Let_def split: sum.splits)
next
  case (RemoveBreak i)
  then show ?thesis
    by (simp add: StorageManager_removeBreak_def framed_refl framed_setBreaks split: sum.splits)
next
  case (AddPractical d now)
  then show ?thesis
    by (simp add: StorageManager_addPractical_def framed_refl framed_setPracticals Let_def
        split: sum.splits)
next
  case (RemovePractical i)
  then show ?thesis
    by (simp add: StorageManager_removePractical_def framed_refl framed_setPracticals
        split: sum.splits)
qed (simp_all add: framed_refl framed_setBreaks framed_setPracticals)

lemma framed_trans:
  assumes "framed w w'" and "framed w' w''"
  shows "framed w w''"
proof -
  from assms have "w'' = w'\<lparr>localStorage := localStorage w''\<rparr>"
      and "w' = w\<lparr>localStorage := localStorage w'\<rparr>"
    by (simp_all add: framed_def)
  then have "w'' = w\<lparr>localStorage := localStorage w'\<rparr>\<lparr>localStorage := localStorage w''\<rparr>"
    by simp
  then have "w'' = w\<lparr>localStorage := localStorage w''\<rparr>"
    by simp
  with assms show ?thesis by (simp add: framed_def)
qed

lemma local_perform_all_frame: "framed w (local_perform_all ops w)"
proof (induction ops arbitrary: w)
  case Nil
  show ?case by (simp add: framed_refl)
next
  case (Cons opn ops)
  show ?case
    using framed_trans [OF local_perform_frame Cons.IH] by simp
qed

lemma reply_failed_get:
  assumes "reply_failed r"
  shows "APIStorageAdapter_getFaculty r c = (cache_faculty c, c)"
    and "APIStorageAdapter_getRooms r c = (cache_rooms c, c)"
    and "APIStorageAdapter_getSubjects r c = (cache_subjects c, c)"
    and "APIStorageAdapter_getLeaveRequests r c = (cache_leaveRequests c, c)"
    and "APIStorageAdapter_getTimetable r c =
           (if truthy (cache_timetable c) then cache_timetable c else getDefaultTimetable, c)"
  using assms
  by (auto simp: reply_failed_def APIStorageAdapter_getFaculty_def APIStorageAdapter_getRooms_def
      APIStorageAdapter_getSubjects_def APIStorageAdapter_getLeaveRequests_def
      APIStorageAdapter_getTimetable_def Let_def split: sum.splits)












lemma wait_present_bounds:
  "attempts \<le> wait_present client m attempts \<and> wait_present client m attempts \<le> max m attempts"
proof (induction client m attempts rule: wait_present.induct)
  case (1 client maxAttempts attempts)
  show ?case
  proof (cases "client attempts = Absent \<and> attempts < maxAttempts")
    case True
    with 1 show ?thesis by (auto simp: wait_present.simps [of client maxAttempts attempts])
  next
    case False
    then show ?thesis by (auto simp: wait_present.simps [of client maxAttempts attempts])
  qed
qed

lemma wait_initialized_bound:
  "wait_initialized client m attempts = Inr n \<Longrightarrow> n \<le> max (m * 2) attempts"
proof (induction client m attempts rule: wait_initialized.induct)
  case (1 client maxAttempts attempts)
  show ?case
  proof (cases "client attempts")
    case Absent
    with 1(2) show ?thesis by (simp add: wait_initialized.simps [of client maxAttempts attempts])
  next
    case (Present ready)
    show ?thesis
    proof (cases "\<not> ready \<and> attempts < maxAttempts * 2")
      case True
      with Present 1(2) have "wait_initialized client maxAttempts (Suc attempts) = Inr n"
        by (simp add: wait_initialized.simps [of client maxAttempts attempts])
      with 1(1) [OF Present True] True show ?thesis by auto
    next
      case False
      with Present 1(2) show ?thesis
        by (auto simp add: wait_initialized.simps [of client maxAttempts attempts])
    qed
  qed
qed

lemma wait_present_never:
  "\<forall>n\<le>m. client n = Absent \<Longrightarrow> attempts \<le> m \<Longrightarrow> wait_present client m attempts = m"
proof (induction client m attempts rule: wait_present.induct)
  case (1 client maxAttempts attempts)
  show ?case
  proof (cases "attempts < maxAttempts")
    case True
    with 1 show ?thesis by (simp add: wait_present.simps [of client maxAttempts attempts])
  next
    case False
    with 1(3) have "attempts = maxAttempts" by simp
    then show ?thesis by (simp add: wait_present.simps [of client maxAttempts maxAttempts])
  qed
qed

lemma waitForAPIClient_never:
  "\<forall>n\<le>m. client n = Absent \<Longrightarrow>
   waitForAPIClient client m interval = Inl (Error ''API client not available after waiting'')"
  by (simp add: waitForAPIClient_def wait_present_never)

lemma wait_ready: "waitForAPIClient (\<lambda>n. Present True) 50 100 = Inr 0"
  by (simp add: waitForAPIClient_def wait_present.simps wait_initialized.simps)

lemma stringify_defaults:
  "JSON_stringify (JArr []) = Json (JArr [])"
  "JSON_stringify getDefaultUsers = Json getDefaultUsers"
  by (simp_all add: JSON_stringify_def getDefaultUsers_def)

lemma seed_step_truthy: "item_truthy (ls k) \<Longrightarrow> seed_step P kv ls k = ls k"
  by (cases kv) (auto simp: seed_step_def)

lemma seed_step_other: "k \<noteq> P @ fst kv \<Longrightarrow> seed_step P kv ls k = ls k"
  by (cases kv) (auto simp: seed_step_def)

lemma seed_step_key:
  "seed_step P (key, d) ls (P @ key)
     = (if item_truthy (ls (P @ key)) then ls (P @ key) else Some (JSON_stringify d))"
  by (simp add: seed_step_def)

lemma seed_fold_truthy:
  "item_truthy (ls k) \<Longrightarrow> fold (seed_step P) kvs ls k = ls k"
proof (induction kvs arbitrary: ls)
  case Nil
  show ?case by simp
next
  case (Cons kv kvs)
  have "seed_step P kv ls k = ls k" using Cons.prems by (rule seed_step_truthy)
  with Cons.IH [of "seed_step P kv ls"] Cons.prems show ?case by simp
qed

lemma seed_fold_other:
  "k \<notin> (\<lambda>key. P @ key) ` fst ` set kvs \<Longrightarrow> fold (seed_step P) kvs ls k = ls k"
proof (induction kvs arbitrary: ls)
  case Nil
  show ?case by simp
next
  case (Cons kv kvs)
  from Cons.prems have "k \<noteq> P @ fst kv" and rest: "k \<notin> (\<lambda>key. P @ key) ` fst ` set kvs"
    by auto
  then have "seed_step P kv ls k = ls k" by (simp add: seed_step_other)
  with Cons.IH [OF rest, of "seed_step P kv ls"] show ?case by simp
qed

lemma seed_fold_key:
  "distinct (map fst kvs) \<Longrightarrow> (key, d) \<in> set kvs \<Longrightarrow>
   fold (seed_step P) kvs ls (P @ key)
     = (if item_truthy (ls (P @ key)) then ls (P @ key) else Some (JSON_stringify d))"
proof (induction kvs arbitrary: ls)
  case Nil
  then show ?case by simp
next
  case (Cons kv kvs)
  obtain key' d' where kv: "kv = (key', d')" by (cases kv)
  show ?case
  proof (cases "key' = key")
    case True
    with Cons.prems kv have d: "d' = d" and fresh: "P @ key \<notin> (\<lambda>key. P @ key) ` fst ` set kvs"
      by (auto simp: image_iff)
    show ?thesis
      using kv True d seed_fold_other [OF fresh] by (simp add: seed_step_key)
  next
    case False
    with Cons.prems kv have "distinct (map fst kvs)" "(key, d) \<in> set kvs" by auto
    from Cons.IH [OF this] kv False show ?thesis by (simp add: seed_step_other)
  qed
qed

lemma initLocalStorage_fold:
  "localStorage (initLocalStorage w) = fold (seed_step localStoragePrefix) defaultData (localStorage w)"
  by (simp add: initLocalStorage_def seed_step_def)

lemma initLocalStorage_flags [simp]:
  "useLocalStorage (initLocalStorage w) = useLocalStorage w"
  "initialized (initLocalStorage w) = initialized w"
  "apiAvailable (initLocalStorage w) = apiAvailable w"
  "apiCalls (initLocalStorage w) = apiCalls w"
  by (simp_all add: initLocalStorage_def)

lemma distinct_defaultData: "distinct (map fst defaultData)"
  by (simp add: defaultData_def)

lemma initLocalStorage_key:
  "(key, d) \<in> set defaultData \<Longrightarrow>
   localStorage (initLocalStorage w) (localStoragePrefix @ key)
     = (if item_truthy (localStorage w (localStoragePrefix @ key))
        then localStorage w (localStoragePrefix @ key) else Some (JSON_stringify d))"
  using seed_fold_key [OF distinct_defaultData] by (simp add: initLocalStorage_fold)

lemma initLocalStorage_truthy:
  "item_truthy (localStorage w k) \<Longrightarrow> localStorage (initLocalStorage w) k = localStorage w k"
  by (simp add: initLocalStorage_fold seed_fold_truthy)

lemma initLocalStorage_other:
  "k \<notin> (\<lambda>key. localStoragePrefix @ key) ` fst ` set defaultData \<Longrightarrow>
   localStorage (initLocalStorage w) k = localStorage w k"
  by (simp add: initLocalStorage_fold seed_fold_other)

lemma defaultData_keys:
  "fst ` set defaultData = {''faculty'', ''rooms'', ''subjects'', ''breaks'', ''leaveRequests'', ''users''}"
  by (simp add: defaultData_def)

lemma defaultData_members:
  "key \<in> {''faculty'', ''rooms'', ''subjects'', ''breaks'', ''leaveRequests''} \<Longrightarrow>
     (key, JArr []) \<in> set defaultData"
  "(''users'', getDefaultUsers) \<in> set defaultData"
  by (auto simp: defaultData_def)

lemma init_probe_failed:
  assumes "\<not> healthCheck probe"
  shows "useLocalStorage (init client probe w)"
    and "initialized (init client probe w)"
    and "localStorage (init client probe w) = localStorage (initLocalStorage w)"
  using assms
  by (simp_all add: init_def Let_def initLocalStorage_def split: sum.splits)


lemma not_seeded_keys:
  "localStoragePrefix @ ''practicals'' \<notin> (\<lambda>key. localStoragePrefix @ key) ` fst ` set defaultData"
  "localStoragePrefix @ ''timetable'' \<notin> (\<lambda>key. localStoragePrefix @ key) ` fst ` set defaultData"
  by (simp_all add: defaultData_keys image_iff)

lemma init_initialized: "initialized (init client probe w)"
  by (simp add: init_def Let_def)

lemma initialized_get:
  assumes "initialized w"
  shows "useLocalStorage (snd (StorageManager_getFaculty client probe f w)) = useLocalStorage w"
    and "apiCalls (snd (StorageManager_getFaculty client probe f w))
           = apiCalls w @ (if useLocalStorage w then [] else [''getFaculty''])"
    and "useLocalStorage (snd (StorageManager_getRooms client probe f w)) = useLocalStorage w"
    and "apiCalls (snd (StorageManager_getRooms client probe f w))
           = apiCalls w @ (if useLocalStorage w then [] else [''getRooms''])"
    and "useLocalStorage (snd (StorageManager_getSubjects client probe f w)) = useLocalStorage w"
    and "apiCalls (snd (StorageManager_getSubjects client probe f w))
           = apiCalls w @ (if useLocalStorage w then [] else [''getSubjects''])"
    and "useLocalStorage (snd (StorageManager_getLeaveRequests client probe f w)) = useLocalStorage w"
    and "apiCalls (snd (StorageManager_getLeaveRequests client probe f w))
           = apiCalls w @ (if useLocalStorage w then [] else [''getLeaveRequests''])"
    and "useLocalStorage (snd (StorageManager_getTimetable client probe f w)) = useLocalStorage w"
    and "apiCalls (snd (StorageManager_getTimetable client probe f w))
           = apiCalls w @ (if useLocalStorage w then [] else [''getTimetable''])"
  using assms
  by (simp_all add: StorageManager_getFaculty_def StorageManager_getRooms_def
      StorageManager_getSubjects_def StorageManager_getLeaveRequests_def
      StorageManager_getTimetable_def Let_def split: sum.splits)

subsection \<open>Reads that fail in REMOTE mode\<close>

text \<open>
  Claim C1, as stated: for every entity type, a \<^verbatim>\<open>get\<close> whose gateway request fails
  returns the cached value of that entity and leaves the cache as it was. This fails for
  the timetable: with nothing cached (\<^verbatim>\<open>null\<close>), the adapter's \<^verbatim>\<open>getTimetable\<close>
  returns the default grid of five days and six periods, not the cached \<^verbatim>\<open>null\<close>.
\<close>

theorem failed_get_timetable_counterexample:
  "reply_failed (Inl (TypeError ''Failed to fetch''))
   \<and> fst (APIStorageAdapter_getTimetable (Inl (TypeError ''Failed to fetch''))
            APIStorageAdapter_constructor)
       \<noteq> cache_timetable APIStorageAdapter_constructor"
  by (simp add: reply_failed_def APIStorageAdapter_getTimetable_def APIStorageAdapter_constructor_def
      getDefaultTimetable_def)

text \<open>
  Claim C1, amended. In the adapter, a \<^verbatim>\<open>get\<close> of faculty, rooms, subjects or leave
  requests whose gateway call fails (it rejects, or its response has no truthy
  \<^verbatim>\<open>success\<close>) returns the cached value and leaves the whole cache unchanged;
  \<^verbatim>\<open>getTimetable\<close> then returns the cached timetable when it is truthy and the default
  grid otherwise, and leaves the cache unchanged too. None of them can throw. The storage
  manager keeps no cache: when it is initialized and in REMOTE mode and the gateway method
  throws, its \<^verbatim>\<open>get\<close> does what the read from \<^verbatim>\<open>localStorage\<close> does (it returns the
  stored collection, or the empty list, or \<^verbatim>\<open>null\<close> for the timetable, when nothing is
  stored, and throws only if the stored string is not JSON text), and changes nothing but
  the record of the gateway call.
\<close>

theorem failed_get_returns_fallback:
  "(reply_failed r \<longrightarrow>
      APIStorageAdapter_getFaculty r c = (cache_faculty c, c)
    \<and> APIStorageAdapter_getRooms r c = (cache_rooms c, c)
    \<and> APIStorageAdapter_getSubjects r c = (cache_subjects c, c)
    \<and> APIStorageAdapter_getLeaveRequests r c = (cache_leaveRequests c, c)
    \<and> APIStorageAdapter_getTimetable r c =
        (if truthy (cache_timetable c) then cache_timetable c else getDefaultTimetable, c))
   \<and> (initialized w \<and> \<not> useLocalStorage w \<longrightarrow>
        (APIClient_getFaculty f = Inl e \<longrightarrow>
           StorageManager_getFaculty client probe f w =
             (StorageManager_getFacultyFromLocalStorage w,
              w\<lparr>apiCalls := apiCalls w @ [''getFaculty'']\<rparr>))
      \<and> (APIClient_getRooms f = Inl e \<longrightarrow>
           StorageManager_getRooms client probe f w =
             (StorageManager_getRoomsFromLocalStorage w,
              w\<lparr>apiCalls := apiCalls w @ [''getRooms'']\<rparr>))
      \<and> (APIClient_getSubjects f = Inl e \<longrightarrow>
           StorageManager_getSubjects client probe f w =
             (StorageManager_getSubjectsFromLocalStorage w,
              w\<lparr>apiCalls := apiCalls w @ [''getSubjects'']\<rparr>))
      \<and> (APIClient_getLeaveRequests f = Inl e \<longrightarrow>
           StorageManager_getLeaveRequests client probe f w =
             (StorageManager_getLeaveRequestsFromLocalStorage w,
              w\<lparr>apiCalls := apiCalls w @ [''getLeaveRequests'']\<rparr>))
      \<and> (APIClient_getTimetable f = Inl e \<longrightarrow>
           StorageManager_getTimetable client probe f w =
             (parse_or (localStorage w (localStoragePrefix @ ''timetable'')) JNull,
              w\<lparr>apiCalls := apiCalls w @ [''getTimetable'']\<rparr>)))"
  by (simp add: reply_failed_get StorageManager_getFaculty_def StorageManager_getRooms_def
      StorageManager_getSubjects_def StorageManager_getLeaveRequests_def
      StorageManager_getTimetable_def StorageManager_getFacultyFromLocalStorage_def
      StorageManager_getRoomsFromLocalStorage_def StorageManager_getSubjectsFromLocalStorage_def
      StorageManager_getLeaveRequestsFromLocalStorage_def)

theorem failed_get_returns_fallback_witness:
  "reply_failed (Inr (JObj [(''success'', JBool False)]))
   \<and> APIStorageAdapter_getRooms (Inr (JObj [(''success'', JBool False)]))
        (APIStorageAdapter_constructor\<lparr>cache_rooms := JArr [JObj [(''id'', JNum 1)]]\<rparr>)
       = (JArr [JObj [(''id'', JNum 1)]],
          APIStorageAdapter_constructor\<lparr>cache_rooms := JArr [JObj [(''id'', JNum 1)]]\<rparr>)
   \<and> APIClient_getRooms (Inl (TypeError ''Failed to fetch'')) = Inl (TypeError ''Failed to fetch'')
   \<and> StorageManager_getRooms (\<lambda>n. Absent) (Inl (TypeError ''Failed to fetch''))
        (Inl (TypeError ''Failed to fetch''))
        ((constructor [''timetable_rooms'' \<mapsto> Json (JArr [JObj [(''id'', JNum 1)]])])
           \<lparr>initialized := True\<rparr>)
       = (Inr (JArr [JObj [(''id'', JNum 1)]]),
          (constructor [''timetable_rooms'' \<mapsto> Json (JArr [JObj [(''id'', JNum 1)]])])
            \<lparr>initialized := True, apiCalls := [''getRooms'']\<rparr>)"
  using failed_get_returns_fallback [of "Inr (JObj [(''success'', JBool False)])"
          "APIStorageAdapter_constructor\<lparr>cache_rooms := JArr [JObj [(''id'', JNum 1)]]\<rparr>"
          "(constructor [''timetable_rooms'' \<mapsto> Json (JArr [JObj [(''id'', JNum 1)]])])
             \<lparr>initialized := True\<rparr>"
          "Inl (TypeError ''Failed to fetch'')" "TypeError ''Failed to fetch''" "\<lambda>n. Absent"
          "Inl (TypeError ''Failed to fetch'')"]
  by (simp add: reply_failed_def APIClient_getRooms_def makeRequest_def constructor_def
      StorageManager_getRoomsFromLocalStorage_def parse_or_def localStoragePrefix_def)

subsection \<open>Writes that fail in REMOTE mode\<close>

text \<open>
  Claim C3. In REMOTE mode, an \<^verbatim>\<open>add\<close> of faculty, rooms, subjects or leave requests
  whose gateway method throws (as it does when the request fails) throws that same error
  to the consumer; nothing but the record of the gateway call changes, and in particular
  \<^verbatim>\<open>localStorage\<close> is not written, whether the call fails or not. In the adapter, an
  \<^verbatim>\<open>add\<close> whose gateway call fails throws and leaves the cache unchanged; a rejection is
  rethrown as it is. The adapter's \<^verbatim>\<open>add\<close> methods have no access to \<^verbatim>\<open>localStorage\<close>.
\<close>

theorem remote_add_failure_is_raised:
  assumes "\<not> useLocalStorage w"
  shows "(APIClient_addFaculty d f = Inl e \<longrightarrow>
            StorageManager_addFaculty d now f w =
              (Inl e, w\<lparr>apiCalls := apiCalls w @ [''addFaculty'']\<rparr>))
       \<and> (APIClient_addRoom d f = Inl e \<longrightarrow>
            StorageManager_addRoom d now f w = (Inl e, w\<lparr>apiCalls := apiCalls w @ [''addRoom'']\<rparr>))
       \<and> (APIClient_addSubject d f = Inl e \<longrightarrow>
            StorageManager_addSubject d now f w =
              (Inl e, w\<lparr>apiCalls := apiCalls w @ [''addSubject'']\<rparr>))
       \<and> (APIClient_addLeaveRequest d t f = Inl e \<longrightarrow>
            StorageManager_addLeaveRequest d now t f w =
              (Inl e, w\<lparr>apiCalls := apiCalls w @ [''addLeaveRequest'']\<rparr>))
       \<and> (makeRequest ''/faculty'' f = Inl e \<longrightarrow> APIClient_addFaculty d f = Inl e)
       \<and> (makeRequest ''/rooms'' f = Inl e \<longrightarrow> APIClient_addRoom d f = Inl e)
       \<and> (makeRequest ''/subjects'' f = Inl e \<longrightarrow> APIClient_addSubject d f = Inl e)
       \<and> (makeRequest ''/leave-requests'' f = Inl e \<longrightarrow>
            (\<exists>e'. APIClient_addLeaveRequest d t f = Inl e'))
       \<and> localStorage (snd (StorageManager_addFaculty d now f w)) = localStorage w
       \<and> localStorage (snd (StorageManager_addRoom d now f w)) = localStorage w
       \<and> localStorage (snd (StorageManager_addSubject d now f w)) = localStorage w
       \<and> localStorage (snd (StorageManager_addLeaveRequest d now t f w)) = localStorage w
       \<and> (reply_failed r \<longrightarrow>
            (\<exists>e'. APIStorageAdapter_addFaculty d r r' c = (Inl e', c))
          \<and> (\<exists>e'. APIStorageAdapter_addRoom d r r' c = (Inl e', c))
          \<and> (\<exists>e'. APIStorageAdapter_addSubject d r r' c = (Inl e', c))
          \<and> (\<exists>e'. APIStorageAdapter_addLeaveRequest d t r r' c = (Inl e', c)))
       \<and> APIStorageAdapter_addFaculty d (Inl e) r' c = (Inl e, c)
       \<and> APIStorageAdapter_addRoom d (Inl e) r' c = (Inl e, c)
       \<and> APIStorageAdapter_addSubject d (Inl e) r' c = (Inl e, c)
       \<and> APIStorageAdapter_addLeaveRequest d t (Inl e) r' c = (Inl e, c)"
  using assms
  by (auto simp: StorageManager_addFaculty_def StorageManager_addRoom_def
      StorageManager_addSubject_def StorageManager_addLeaveRequest_def APIClient_addFaculty_def
      APIClient_addRoom_def APIClient_addSubject_def APIClient_addLeaveRequest_def reply_failed_def
      APIStorageAdapter_addFaculty_def APIStorageAdapter_addRoom_def
      APIStorageAdapter_addSubject_def APIStorageAdapter_addLeaveRequest_def ebind_def
      split: sum.splits)

theorem remote_add_failure_is_raised_witness:
  "\<not> useLocalStorage (constructor Map.empty)
   \<and> makeRequest ''/faculty'' (Inl (TypeError ''Failed to fetch'')) = Inl (TypeError ''Failed to fetch'')
   \<and> StorageManager_addFaculty (JObj [(''name'', JStr ''A'')]) 1700000000000
         (Inl (TypeError ''Failed to fetch'')) (constructor Map.empty)
       = (Inl (TypeError ''Failed to fetch''),
          (constructor Map.empty)\<lparr>apiCalls := [''addFaculty'']\<rparr>)
   \<and> reply_failed (Inr (JObj [(''success'', JBool False)]))
   \<and> APIStorageAdapter_addFaculty (JObj [(''name'', JStr ''A'')])
         (Inr (JObj [(''success'', JBool False)]))
         (Inr (JObj [(''success'', JBool True), (''data'', JArr [])])) APIStorageAdapter_constructor
       = (Inl (Error ''Failed to add faculty''), APIStorageAdapter_constructor)"
  using remote_add_failure_is_raised [of "constructor Map.empty" "JObj [(''name'', JStr ''A'')]"
          "Inl (TypeError ''Failed to fetch'')" "TypeError ''Failed to fetch''" 1700000000000
          "''2024-01-01T00:00:00.000Z''" "Inr (JObj [(''success'', JBool False)])"
          "Inr (JObj [(''success'', JBool True), (''data'', JArr [])])" APIStorageAdapter_constructor]
  by (simp add: constructor_def makeRequest_def reply_failed_def APIStorageAdapter_addFaculty_def)

subsection \<open>Breaks and practicals stay local\<close>

text \<open>
  Claim C4. For every sequence of get, set (update), add and remove operations on breaks
  and practicals, from every state and so in either mode, the list of gateway methods
  invoked is the same after the sequence as before it: no gateway method is invoked. The
  sequence changes nothing but \<^verbatim>\<open>localStorage\<close>, and there nothing but what is stored
  under the keys of breaks and practicals.
\<close>

theorem breaks_and_practicals_never_reach_gateway:
  "apiCalls (local_perform_all ops w) = apiCalls w
   \<and> local_perform_all ops w = w\<lparr>localStorage := localStorage (local_perform_all ops w)\<rparr>
   \<and> localStorage (local_perform_all ops w) |` (- local_keys) = localStorage w |` (- local_keys)"
proof -
  have fr: "framed w (local_perform_all ops w)"
    by (rule local_perform_all_frame)
  then have eq: "local_perform_all ops w = w\<lparr>localStorage := localStorage (local_perform_all ops w)\<rparr>"
    by (simp add: framed_def)
  have "apiCalls (local_perform_all ops w)
          = apiCalls (w\<lparr>localStorage := localStorage (local_perform_all ops w)\<rparr>)"
    using eq by simp
  then have "apiCalls (local_perform_all ops w) = apiCalls w"
    by simp
  with fr eq show ?thesis by (simp add: framed_def)
qed

theorem breaks_and_practicals_never_reach_gateway_witness:
  "apiCalls (local_perform_all
     [AddBreak (JObj [(''name'', JStr ''Lunch'')]) 1700000000000, GetBreaks,
      SetBreaks (JArr [JObj [(''id'', JNum 1700000000000), (''name'', JStr ''Tea'')]]),
      RemoveBreak (JNum 1700000000000),
      AddPractical (JObj [(''name'', JStr ''Lab'')]) 1700000000001, RemovePractical (JNum 5)]
     (constructor Map.empty)) = []"
  using breaks_and_practicals_never_reach_gateway [of
     "[AddBreak (JObj [(''name'', JStr ''Lunch'')]) 1700000000000, GetBreaks,
      SetBreaks (JArr [JObj [(''id'', JNum 1700000000000), (''name'', JStr ''Tea'')]]),
      RemoveBreak (JNum 1700000000000),
      AddPractical (JObj [(''name'', JStr ''Lab'')]) 1700000000001, RemovePractical (JNum 5)]"
     "constructor Map.empty"]
  by (simp add: constructor_def)

subsection \<open>Removing an identifier that is not there\<close>

text \<open>
  Claim C9. Let the stored collection be a JSON array without \<^verbatim>\<open>null\<close> elements, none
  of which carries the identifier. Then \<^verbatim>\<open>remove\<close> in LOCAL mode (for faculty, rooms and
  subjects; in any mode for breaks and practicals) does not throw, and the state after it is
  the state before it: the stored collection keeps its length and its contents.
\<close>

theorem remove_absent_id_keeps_collection:
  assumes "is_json (JArr xs)" and "JNull \<notin> set xs" and "\<forall>f\<in>set xs. \<not> has_id ident f"
  shows "(useLocalStorage w
            \<and> localStorage w (localStoragePrefix @ ''faculty'') = Some (Json (JArr xs)) \<longrightarrow>
            StorageManager_removeFaculty ident fetched w = (Inr JUndefined, w))
       \<and> (useLocalStorage w
            \<and> localStorage w (localStoragePrefix @ ''rooms'') = Some (Json (JArr xs)) \<longrightarrow>
            StorageManager_removeRoom ident fetched w = (Inr JUndefined, w))
       \<and> (useLocalStorage w
            \<and> localStorage w (localStoragePrefix @ ''subjects'') = Some (Json (JArr xs)) \<longrightarrow>
            StorageManager_removeSubject ident fetched w = (Inr JUndefined, w))
       \<and> (localStorage w (localStoragePrefix @ ''breaks'') = Some (Json (JArr xs)) \<longrightarrow>
            StorageManager_removeBreak ident w = (Inr JUndefined, w))
       \<and> (localStorage w (localStoragePrefix @ ''practicals'') = Some (Json (JArr xs)) \<longrightarrow>
            StorageManager_removePractical ident w = (Inr JUndefined, w))"
  using filter_unchanged [OF assms]
  by (simp add: StorageManager_removeFaculty_def StorageManager_removeRoom_def
      StorageManager_removeSubject_def StorageManager_removeBreak_def
      StorageManager_removePractical_def StorageManager_getFacultyFromLocalStorage_def
      StorageManager_getRoomsFromLocalStorage_def StorageManager_getSubjectsFromLocalStorage_def
      StorageManager_getBreaks_def StorageManager_getPracticals_def StorageManager_setFaculty_def
      StorageManager_setRooms_def StorageManager_setSubjects_def StorageManager_setBreaks_def
      StorageManager_setPracticals_def parse_or_def store_same)

theorem remove_absent_id_keeps_collection_witness:
  "is_json (JArr [JObj [(''id'', JNum 1), (''name'', JStr ''A'')]])
   \<and> JNull \<notin> set [JObj [(''id'', JNum 1), (''name'', JStr ''A'')]]
   \<and> \<not> has_id (JNum 2) (JObj [(''id'', JNum 1), (''name'', JStr ''A'')])
   \<and> useLocalStorage ((constructor [''timetable_faculty'' \<mapsto>
          Json (JArr [JObj [(''id'', JNum 1), (''name'', JStr ''A'')]])])\<lparr>useLocalStorage := True\<rparr>)
   \<and> StorageManager_removeFaculty (JNum 2) (Inl (TypeError ''Failed to fetch''))
        ((constructor [''timetable_faculty'' \<mapsto>
          Json (JArr [JObj [(''id'', JNum 1), (''name'', JStr ''A'')]])])\<lparr>useLocalStorage := True\<rparr>)
      = (Inr JUndefined,
         (constructor [''timetable_faculty'' \<mapsto>
          Json (JArr [JObj [(''id'', JNum 1), (''name'', JStr ''A'')]])])\<lparr>useLocalStorage := True\<rparr>)"
  using remove_absent_id_keeps_collection [of "[JObj [(''id'', JNum 1), (''name'', JStr ''A'')]]"
          "JNum 2"
          "(constructor [''timetable_faculty'' \<mapsto>
             Json (JArr [JObj [(''id'', JNum 1), (''name'', JStr ''A'')]])])\<lparr>useLocalStorage := True\<rparr>"
          "Inl (TypeError ''Failed to fetch'')"]
  by (simp add: has_id_def constructor_def localStoragePrefix_def)

subsection \<open>Outcomes of a gateway request\<close>

text \<open>
  Claim C7, as stated: whenever the upstream gives no error message, the raised error
  carries a generic message keyed on the HTTP status. This fails for a response with a 2xx
  status whose envelope says \<^verbatim>\<open>success: false\<close>: the message is the fixed text
  \<^verbatim>\<open>API request failed\<close>, the same for status 200 and status 201.
\<close>

theorem makeRequest_generic_message_counterexample:
  "makeRequest ''/faculty'' (Inr \<lparr>status = 200, json = Inr (JObj [(''success'', JBool False)])\<rparr>)
     = Inl (Error ''API request failed'')
   \<and> makeRequest ''/faculty'' (Inr \<lparr>status = 201, json = Inr (JObj [(''success'', JBool False)])\<rparr>)
     = Inl (Error ''API request failed'')"
  by (simp add: makeRequest_def ok_def)

text \<open>
  Claim C7, amended. A request returns a payload exactly when the fetch resolves, the body
  parses, the status is 2xx and the envelope's \<^verbatim>\<open>success\<close> is truthy; the payload is the
  envelope's \<^verbatim>\<open>data\<close>, or the whole envelope when it has none. Every other outcome is a
  thrown error: a rejected fetch or an unparseable body rethrows that rejection; a non-2xx
  status and a \<^verbatim>\<open>success: false\<close> envelope both throw an \<^verbatim>\<open>Error\<close> whose message is the
  upstream \<^verbatim>\<open>error\<close> when that is truthy, and otherwise a generic message, which carries
  the HTTP status for a non-2xx response and is the fixed text \<^verbatim>\<open>API request failed\<close> for
  a \<^verbatim>\<open>success: false\<close> envelope.
\<close>

theorem makeRequest_outcomes:
  "(makeRequest endpoint fetched = Inr v \<longleftrightarrow>
      (\<exists>response data success d.
         fetched = Inr response \<and> json response = Inr data \<and> ok response
         \<and> get_prop data ''success'' = Inr success \<and> truthy success
         \<and> get_prop data ''data'' = Inr d \<and> v = (if d \<noteq> JUndefined then d else data)))
   \<and> (fetched = Inl e \<longrightarrow> makeRequest endpoint fetched = Inl e)
   \<and> (fetched = Inr response \<and> json response = Inl e \<longrightarrow> makeRequest endpoint fetched = Inl e)
   \<and> (fetched = Inr response \<and> json response = Inr data \<and> get_prop data ''error'' = Inr err
        \<and> \<not> ok response \<longrightarrow>
        makeRequest endpoint fetched =
          Inl (Error (if truthy err then to_string err
                      else ''HTTP error! status: '' @ decimal (status response))))
   \<and> (fetched = Inr response \<and> json response = Inr data \<and> get_prop data ''error'' = Inr err
        \<and> ok response \<and> get_prop data ''success'' = Inr success \<and> \<not> truthy success \<longrightarrow>
        makeRequest endpoint fetched =
          Inl (Error (if truthy err then to_string err else ''API request failed'')))"
  by (auto simp: makeRequest_def ebind_def split: sum.splits if_splits)

theorem makeRequest_outcomes_witness:
  "makeRequest ''/rooms''
     (Inr \<lparr>status = 200, json = Inr (JObj [(''success'', JBool True), (''data'', JArr [])])\<rparr>)
     = Inr (JArr [])
   \<and> makeRequest ''/rooms'' (Inl (TypeError ''Failed to fetch'')) = Inl (TypeError ''Failed to fetch'')
   \<and> makeRequest ''/rooms'' (Inr \<lparr>status = 502, json = Inl (SyntaxError ''Unexpected token'')\<rparr>)
     = Inl (SyntaxError ''Unexpected token'')
   \<and> makeRequest ''/rooms'' (Inr \<lparr>status = 500, json = Inr (JObj [])\<rparr>)
     = Inl (Error ''HTTP error! status: 500'')
   \<and> makeRequest ''/rooms''
       (Inr \<lparr>status = 200,
             json = Inr (JObj [(''success'', JBool False), (''error'', JStr ''Room exists'')])\<rparr>)
     = Inl (Error ''Room exists'')"
  using makeRequest_outcomes [of "''/rooms''"
          "Inr \<lparr>status = 200, json = Inr (JObj [(''success'', JBool True), (''data'', JArr [])])\<rparr>"
          "JArr []"]
        makeRequest_outcomes [of "''/rooms''" "Inl (TypeError ''Failed to fetch'')" _
          "TypeError ''Failed to fetch''"]
        makeRequest_outcomes [of "''/rooms''"
          "Inr \<lparr>status = 502, json = Inl (SyntaxError ''Unexpected token'')\<rparr>" _
          "SyntaxError ''Unexpected token''"
          "\<lparr>status = 502, json = Inl (SyntaxError ''Unexpected token'')\<rparr>"]
        makeRequest_outcomes [of "''/rooms''" "Inr \<lparr>status = 500, json = Inr (JObj [])\<rparr>" _ _
          "\<lparr>status = 500, json = Inr (JObj [])\<rparr>" "JObj []" JUndefined]
        makeRequest_outcomes [of "''/rooms''"
          "Inr \<lparr>status = 200,
                json = Inr (JObj [(''success'', JBool False), (''error'', JStr ''Room exists'')])\<rparr>"
          _ _
          "\<lparr>status = 200,
            json = Inr (JObj [(''success'', JBool False), (''error'', JStr ''Room exists'')])\<rparr>"
          "JObj [(''success'', JBool False), (''error'', JStr ''Room exists'')]"
          "JStr ''Room exists''" "JBool False"]
  by (simp add: ok_def digit_def)

subsection \<open>Direct mutators of the storage manager\<close>

text \<open>
  Claim C10. While the mode is REMOTE (\<open>useLocalStorage\<close> is false), the storage manager's
  direct mutators \<^verbatim>\<open>setFaculty\<close>, \<^verbatim>\<open>setRooms\<close>, \<^verbatim>\<open>setSubjects\<close>,
  \<^verbatim>\<open>setLeaveRequests\<close> and \<^verbatim>\<open>setTimetable\<close> do nothing: for every argument the state
  after the call, and with it the content of \<^verbatim>\<open>localStorage\<close>, is the state before it.
\<close>

theorem setters_do_nothing_in_remote_mode:
  assumes "\<not> useLocalStorage w"
  shows "StorageManager_setFaculty v w = w
       \<and> StorageManager_setRooms v w = w
       \<and> StorageManager_setSubjects v w = w
       \<and> StorageManager_setLeaveRequests v w = w
       \<and> StorageManager_setTimetable v w = w
       \<and> localStorage (StorageManager_setFaculty v w) = localStorage w
       \<and> localStorage (StorageManager_setRooms v w) = localStorage w
       \<and> localStorage (StorageManager_setSubjects v w) = localStorage w
       \<and> localStorage (StorageManager_setLeaveRequests v w) = localStorage w
       \<and> localStorage (StorageManager_setTimetable v w) = localStorage w"
  using assms
  by (simp add: StorageManager_setFaculty_def StorageManager_setRooms_def
      StorageManager_setSubjects_def StorageManager_setLeaveRequests_def
      StorageManager_setTimetable_def)

theorem setters_do_nothing_in_remote_mode_witness:
  "\<not> useLocalStorage (constructor Map.empty)
   \<and> localStorage (StorageManager_setFaculty (JArr [JObj [(''id'', JNum 7)]]) (constructor Map.empty))
       = Map.empty
   \<and> StorageManager_setTimetable (JObj []) (constructor Map.empty) = constructor Map.empty"
  using setters_do_nothing_in_remote_mode [of "constructor Map.empty"]
  by (simp add: constructor_def)

subsection \<open>Deciding the mode\<close>

text \<open>
  Claim C2, as stated: two calls of the determination routine in a row give the same mode,
  and the second does not probe again. \<^verbatim>\<open>init\<close> does not look at \<^verbatim>\<open>initialized\<close>:
  with the gateway present, a first call whose probe is healthy chooses REMOTE, and a
  second call whose probe fails probes again and switches to LOCAL.
\<close>

theorem second_init_probes_again_counterexample:
  "useLocalStorage (init (\<lambda>n. Present True)
      (Inr \<lparr>status = 200, json = Inr (JObj [(''status'', JStr ''healthy'')])\<rparr>)
      (constructor Map.empty)) = False
   \<and> useLocalStorage (init (\<lambda>n. Present True) (Inl (TypeError ''Failed to fetch''))
        (init (\<lambda>n. Present True)
          (Inr \<lparr>status = 200, json = Inr (JObj [(''status'', JStr ''healthy'')])\<rparr>)
          (constructor Map.empty))) = True
   \<and> apiCalls (init (\<lambda>n. Present True) (Inl (TypeError ''Failed to fetch''))
        (init (\<lambda>n. Present True)
          (Inr \<lparr>status = 200, json = Inr (JObj [(''status'', JStr ''healthy'')])\<rparr>)
          (constructor Map.empty)))
      = [''healthCheck'', ''healthCheck'']"
  by (simp add: init_def wait_ready healthCheck_def constructor_def Let_def)

text \<open>
  Claim C2, amended. Every call of \<^verbatim>\<open>init\<close> ends with \<^verbatim>\<open>initialized\<close> set, and the
  \<^verbatim>\<open>get\<close> methods call \<^verbatim>\<open>init\<close> only while it is not set. So once \<^verbatim>\<open>init\<close> has
  completed, a \<^verbatim>\<open>get\<close> of faculty, rooms, subjects, leave requests or the timetable keeps
  the mode and issues no health probe, whatever the environment does: the only gateway
  method it invokes is its own, and only in REMOTE mode.
\<close>

theorem initialized_get_keeps_mode:
  "initialized (init client probe w)
   \<and> (initialized w \<longrightarrow>
        useLocalStorage (snd (StorageManager_getFaculty client' probe' f w)) = useLocalStorage w
      \<and> apiCalls (snd (StorageManager_getFaculty client' probe' f w))
           = apiCalls w @ (if useLocalStorage w then [] else [''getFaculty''])
      \<and> useLocalStorage (snd (StorageManager_getRooms client' probe' f w)) = useLocalStorage w
      \<and> apiCalls (snd (StorageManager_getRooms client' probe' f w))
           = apiCalls w @ (if useLocalStorage w then [] else [''getRooms''])
      \<and> useLocalStorage (snd (StorageManager_getSubjects client' probe' f w)) = useLocalStorage w
      \<and> apiCalls (snd (StorageManager_getSubjects client' probe' f w))
           = apiCalls w @ (if useLocalStorage w then [] else [''getSubjects''])
      \<and> useLocalStorage (snd (StorageManager_getLeaveRequests client' probe' f w)) = useLocalStorage w
      \<and> apiCalls (snd (StorageManager_getLeaveRequests client' probe' f w))
           = apiCalls w @ (if useLocalStorage w then [] else [''getLeaveRequests''])
      \<and> useLocalStorage (snd (StorageManager_getTimetable client' probe' f w)) = useLocalStorage w
      \<and> apiCalls (snd (StorageManager_getTimetable client' probe' f w))
           = apiCalls w @ (if useLocalStorage w then [] else [''getTimetable'']))"
  by (simp add: init_initialized initialized_get)

theorem initialized_get_keeps_mode_witness:
  "initialized (init (\<lambda>n. Present True)
      (Inr \<lparr>status = 200, json = Inr (JObj [(''status'', JStr ''healthy'')])\<rparr>)
      (constructor Map.empty))
   \<and> useLocalStorage (snd (StorageManager_getRooms (\<lambda>n. Present True)
        (Inl (TypeError ''Failed to fetch'')) (Inl (TypeError ''Failed to fetch''))
        (init (\<lambda>n. Present True)
          (Inr \<lparr>status = 200, json = Inr (JObj [(''status'', JStr ''healthy'')])\<rparr>)
          (constructor Map.empty)))) = False
   \<and> apiCalls (snd (StorageManager_getRooms (\<lambda>n. Present True)
        (Inl (TypeError ''Failed to fetch'')) (Inl (TypeError ''Failed to fetch''))
        (init (\<lambda>n. Present True)
          (Inr \<lparr>status = 200, json = Inr (JObj [(''status'', JStr ''healthy'')])\<rparr>)
          (constructor Map.empty)))) = [''healthCheck'', ''getRooms'']"
  using initialized_get_keeps_mode [of "\<lambda>n. Present True"
          "Inr \<lparr>status = 200, json = Inr (JObj [(''status'', JStr ''healthy'')])\<rparr>"
          "constructor Map.empty"]
        initialized_get_keeps_mode [of _ _
          "init (\<lambda>n. Present True)
             (Inr \<lparr>status = 200, json = Inr (JObj [(''status'', JStr ''healthy'')])\<rparr>)
             (constructor Map.empty)"
          "\<lambda>n. Present True" "Inl (TypeError ''Failed to fetch'')"
          "Inl (TypeError ''Failed to fetch'')"]
  by (simp add: init_def wait_ready healthCheck_def constructor_def Let_def)

subsection \<open>Seeding the local store\<close>

text \<open>
  Claim C5, as stated: when the probe fails, every entity type's key without a value is
  seeded, practicals and timetable included. The defaults of \<^verbatim>\<open>initLocalStorage\<close> have no
  entry for practicals and none for the timetable: from an empty store, both keys are
  still absent after the initialization.
\<close>

theorem seeding_skips_practicals_counterexample:
  "\<not> healthCheck (Inl (TypeError ''Failed to fetch''))
   \<and> useLocalStorage (init (\<lambda>n. Present True) (Inl (TypeError ''Failed to fetch''))
        (constructor Map.empty))
   \<and> localStorage (init (\<lambda>n. Present True) (Inl (TypeError ''Failed to fetch''))
        (constructor Map.empty)) (localStoragePrefix @ ''practicals'') = None
   \<and> localStorage (init (\<lambda>n. Present True) (Inl (TypeError ''Failed to fetch''))
        (constructor Map.empty)) (localStoragePrefix @ ''timetable'') = None"
proof -
  have p: "\<not> healthCheck (Inl (TypeError ''Failed to fetch''))"
    by (simp add: healthCheck_def)
  have e: "localStorage (constructor Map.empty) = Map.empty"
    by (simp add: constructor_def)
  show ?thesis
    by (simp add: p init_probe_failed [OF p] initLocalStorage_other [OF not_seeded_keys(1)]
        initLocalStorage_other [OF not_seeded_keys(2)] e)
qed

text \<open>
  Claim C5, amended. If the health probe fails, the mode is LOCAL and the manager is
  initialized. The keys of faculty, rooms, subjects, breaks and leave requests then hold
  their old string if that was truthy (present and not the empty string) and the JSON text
  of the empty list otherwise; the key of users likewise, with the three default users.
  No key that held a truthy string is overwritten, and the keys other than these six are
  left as they are.
\<close>

theorem failed_probe_seeds_local_storage:
  assumes "\<not> healthCheck probe"
  shows "useLocalStorage (init client probe w)
       \<and> initialized (init client probe w)
       \<and> (\<forall>key\<in>{''faculty'', ''rooms'', ''subjects'', ''breaks'', ''leaveRequests''}.
            localStorage (init client probe w) (localStoragePrefix @ key)
              = seeded (localStorage w) (localStoragePrefix @ key) (JArr []))
       \<and> localStorage (init client probe w) (localStoragePrefix @ ''users'')
            = seeded (localStorage w) (localStoragePrefix @ ''users'') getDefaultUsers
       \<and> (\<forall>k. item_truthy (localStorage w k) \<longrightarrow>
              localStorage (init client probe w) k = localStorage w k)
       \<and> (\<forall>k. k \<notin> (\<lambda>key. localStoragePrefix @ key) `
                   {''faculty'', ''rooms'', ''subjects'', ''breaks'', ''leaveRequests'', ''users''} \<longrightarrow>
              localStorage (init client probe w) k = localStorage w k)"
proof -
  note ls = init_probe_failed(3) [OF assms, of client w]
  have a: "\<forall>key\<in>{''faculty'', ''rooms'', ''subjects'', ''breaks'', ''leaveRequests''}.
            localStorage (init client probe w) (localStoragePrefix @ key)
              = seeded (localStorage w) (localStoragePrefix @ key) (JArr [])"
  proof
    fix key :: string
    assume "key \<in> {''faculty'', ''rooms'', ''subjects'', ''breaks'', ''leaveRequests''}"
    then have "(key, JArr []) \<in> set defaultData" by (rule defaultData_members(1))
    from initLocalStorage_key [OF this, of w]
    show "localStorage (init client probe w) (localStoragePrefix @ key)
              = seeded (localStorage w) (localStoragePrefix @ key) (JArr [])"
      unfolding ls seeded_def stringify_defaults .
  qed
  have b: "localStorage (init client probe w) (localStoragePrefix @ ''users'')
            = seeded (localStorage w) (localStoragePrefix @ ''users'') getDefaultUsers"
    using initLocalStorage_key [OF defaultData_members(2), of w]
    unfolding ls seeded_def stringify_defaults .
  have c: "\<forall>k. item_truthy (localStorage w k) \<longrightarrow>
              localStorage (init client probe w) k = localStorage w k"
    unfolding ls using initLocalStorage_truthy by blast
  have d: "\<forall>k. k \<notin> (\<lambda>key. localStoragePrefix @ key) `
                   {''faculty'', ''rooms'', ''subjects'', ''breaks'', ''leaveRequests'', ''users''} \<longrightarrow>
              localStorage (init client probe w) k = localStorage w k"
    unfolding ls using initLocalStorage_other [of _ w] unfolding defaultData_keys by blast
  show ?thesis
    by (intro conjI init_probe_failed(1) [OF assms] init_probe_failed(2) [OF assms] a b c d)
qed

theorem failed_probe_seeds_local_storage_witness:
  "\<not> healthCheck (Inr \<lparr>status = 503, json = Inr (JObj [(''status'', JStr ''down'')])\<rparr>)
   \<and> useLocalStorage (init (\<lambda>n. Present True)
         (Inr \<lparr>status = 503, json = Inr (JObj [(''status'', JStr ''down'')])\<rparr>)
         (constructor [''timetable_rooms'' \<mapsto> Json (JArr [JObj [(''id'', JNum 4)]])]))
   \<and> localStorage (init (\<lambda>n. Present True)
         (Inr \<lparr>status = 503, json = Inr (JObj [(''status'', JStr ''down'')])\<rparr>)
         (constructor [''timetable_rooms'' \<mapsto> Json (JArr [JObj [(''id'', JNum 4)]])]))
        ''timetable_rooms'' = Some (Json (JArr [JObj [(''id'', JNum 4)]]))
   \<and> localStorage (init (\<lambda>n. Present True)
         (Inr \<lparr>status = 503, json = Inr (JObj [(''status'', JStr ''down'')])\<rparr>)
         (constructor [''timetable_rooms'' \<mapsto> Json (JArr [JObj [(''id'', JNum 4)]])]))
        ''timetable_faculty'' = Some (Json (JArr []))
   \<and> localStorage (init (\<lambda>n. Present True)
         (Inr \<lparr>status = 503, json = Inr (JObj [(''status'', JStr ''down'')])\<rparr>)
         (constructor [''timetable_rooms'' \<mapsto> Json (JArr [JObj [(''id'', JNum 4)]])]))
        ''timetable_users'' = Some (Json getDefaultUsers)"
proof -
  have p: "\<not> healthCheck (Inr \<lparr>status = 503, json = Inr (JObj [(''status'', JStr ''down'')])\<rparr>)"
    by (simp add: healthCheck_def)
  note T = failed_probe_seeds_local_storage [OF p, of "\<lambda>n. Present True"
             "constructor [''timetable_rooms'' \<mapsto> Json (JArr [JObj [(''id'', JNum 4)]])]"]
  note mode = T [THEN conjunct1]
  note lists = T [THEN conjunct2, THEN conjunct2, THEN conjunct1]
  note users = T [THEN conjunct2, THEN conjunct2, THEN conjunct2, THEN conjunct1]
  have rooms: "''rooms'' \<in> {''faculty'', ''rooms'', ''subjects'', ''breaks'', ''leaveRequests''}"
    and faculty: "''faculty'' \<in> {''faculty'', ''rooms'', ''subjects'', ''breaks'', ''leaveRequests''}"
    by simp_all
  show ?thesis
    using p mode lists [THEN bspec, OF rooms] lists [THEN bspec, OF faculty] users
    by (simp add: seeded_def constructor_def localStoragePrefix_def)
qed

subsection \<open>Waiting for the gateway\<close>

text \<open>
  Claim C8. The readiness wait terminates (each of its two polling cycles is a total function, by the
  measures given with their definitions) and makes a bounded number of timer waits: at most
  \<open>maxAttempts\<close> while the gateway is absent, and at most twice \<open>maxAttempts\<close> in all
  when it returns normally. If the gateway is absent at every look up to the ceiling of 50
  attempts, \<^verbatim>\<open>init\<close> does not throw: it switches to LOCAL, seeds the local store, sets
  \<^verbatim>\<open>initialized\<close> and issues no health probe.
\<close>

theorem readiness_wait_is_bounded:
  "wait_present client maxAttempts 0 \<le> maxAttempts
   \<and> (waitForAPIClient client maxAttempts interval = Inr n \<longrightarrow> n \<le> 2 * maxAttempts)
   \<and> ((\<forall>n\<le>50. client n = Absent) \<longrightarrow>
        init client probe w = (initLocalStorage (w\<lparr>useLocalStorage := True\<rparr>))\<lparr>initialized := True\<rparr>
        \<and> useLocalStorage (init client probe w)
        \<and> initialized (init client probe w)
        \<and> apiCalls (init client probe w) = apiCalls w)"
proof -
  have a: "wait_present client maxAttempts 0 \<le> maxAttempts"
    using wait_present_bounds [of 0 client maxAttempts] by simp
  have b: "waitForAPIClient client maxAttempts interval = Inr n \<longrightarrow> n \<le> 2 * maxAttempts"
  proof
    assume r: "waitForAPIClient client maxAttempts interval = Inr n"
    then have "wait_initialized client maxAttempts (wait_present client maxAttempts 0) = Inr n"
      by (simp add: waitForAPIClient_def Let_def split: if_splits)
    from wait_initialized_bound [OF this] a show "n \<le> 2 * maxAttempts" by simp
  qed
  have c: "(\<forall>n\<le>50. client n = Absent) \<longrightarrow>
        init client probe w = (initLocalStorage (w\<lparr>useLocalStorage := True\<rparr>))\<lparr>initialized := True\<rparr>
        \<and> useLocalStorage (init client probe w)
        \<and> initialized (init client probe w)
        \<and> apiCalls (init client probe w) = apiCalls w"
    by (simp add: init_def waitForAPIClient_never)
  show ?thesis by (intro conjI a b c)
qed

theorem readiness_wait_is_bounded_witness:
  "useLocalStorage (init (\<lambda>n. Absent)
        (Inr \<lparr>status = 200, json = Inr (JObj [(''status'', JStr ''healthy'')])\<rparr>)
        (constructor Map.empty))
   \<and> apiCalls (init (\<lambda>n. Absent)
        (Inr \<lparr>status = 200, json = Inr (JObj [(''status'', JStr ''healthy'')])\<rparr>)
        (constructor Map.empty)) = []
   \<and> waitForAPIClient (\<lambda>n. Present (20 < n)) 50 100 = Inr 21"
  using readiness_wait_is_bounded [of "\<lambda>n. Absent" 50 100 21
          "Inr \<lparr>status = 200, json = Inr (JObj [(''status'', JStr ''healthy'')])\<rparr>"
          "constructor Map.empty"]
        readiness_wait_is_bounded [of "\<lambda>n. Present (20 < n)" 50 100 21]
  by (simp add: constructor_def waitForAPIClient_def wait_present.simps wait_initialized.simps)

subsection \<open>What the cache holds\<close>




end
